theory Spec2Isabelle
  imports Main "HOL-Library.Sublist"
begin

section \<open>JavaScript values and helpers used by the scanner\<close>

text \<open>
  Strings are \<^typ>\<open>string\<close>, and \<open>undefined\<close> is \<^const>\<open>None\<close>. The helpers below are
  the JavaScript operators that the source applies to strings, arrays and object
  literals, written out as total functions.
\<close>

text \<open>\<open>xs[i]\<close>: an out-of-range read of a JavaScript array yields \<open>undefined\<close>.\<close>

definition nth_opt :: "'a list \<Rightarrow> nat \<Rightarrow> 'a option" where
  "nth_opt xs i = (if i < length xs then Some (xs ! i) else None)"

text \<open>\<open>x || d\<close> for \<open>x : string | undefined\<close>: \<open>undefined\<close> and the empty string are falsy.\<close>

definition js_or :: "string option \<Rightarrow> string \<Rightarrow> string" where
  "js_or x d = (case x of None \<Rightarrow> d | Some s \<Rightarrow> if s = [] then d else s)"

text \<open>\<open>s.includes(t)\<close>: \<open>t\<close> occurs in \<open>s\<close> as a contiguous substring.\<close>

definition str_includes :: "string \<Rightarrow> string \<Rightarrow> bool" where
  "str_includes s t = sublist t s"

text \<open>
  \<open>s.split(c)\<close> for a one-character separator: the pieces between the separators, in
  order. The result is never empty; \<open>''.split('/')\<close> is \<open>['']\<close>.
\<close>

fun split_on :: "char \<Rightarrow> string \<Rightarrow> string list" where
  "split_on c [] = [[]]"
| "split_on c (x # xs) =
     (if x = c then [] # split_on c xs
      else (case split_on c xs of
              [] \<Rightarrow> [[x]]
            | p # ps \<Rightarrow> (x # p) # ps))"

text \<open>\<open>xs.pop()\<close>, for its value only: the last entry, \<open>undefined\<close> on an empty array.\<close>

definition pop :: "'a list \<Rightarrow> 'a option" where
  "pop xs = (if xs = [] then None else Some (last xs))"

text \<open>
  \<open>s.replace(/\.[^.]+$/, rep)\<close>: the leftmost position at which the pattern matches is a
  dot that is followed, up to the end of the string, by one or more characters none of
  which is a dot. The match reaches the end of the string, so the rest is dropped. None
  of the replacement strings in the source contains a \<open>$\<close> pattern.
\<close>

fun replace_ext :: "string \<Rightarrow> string \<Rightarrow> string" where
  "replace_ext rep [] = []"
| "replace_ext rep (c # cs) =
     (if c = CHR ''.'' \<and> cs \<noteq> [] \<and> CHR ''.'' \<notin> set cs then rep
      else c # replace_ext rep cs)"

text \<open>
  \<open>s.replace(/\/?>/, rep)\<close>: the leftmost match is either \<open>/>\<close> or a single \<open>>\<close>; only this
  first match is replaced.
\<close>

fun replace_tag_end :: "string \<Rightarrow> string \<Rightarrow> string" where
  "replace_tag_end rep [] = []"
| "replace_tag_end rep (c # cs) =
     (if c = CHR ''/'' \<and> nth_opt cs 0 = Some (CHR ''>'') then rep @ tl cs
      else if c = CHR ''>'' then rep @ cs
      else c # replace_tag_end rep cs)"

text \<open>
  \<open>s.toLowerCase()\<close>. A character of \<^typ>\<open>string\<close> stands for the code unit of the same
  number, 0 to 255. In that range the cased letters with a lower-case form are \<open>A\<close> to \<open>Z\<close>
  (65 to 90) and the capital letters from 192 to 222 other than the multiplication sign
  215; each moves up by 32. Every other code unit below 256 is its own lower-case form.
\<close>

definition toLowerCase_char :: "char \<Rightarrow> char" where
  "toLowerCase_char c =
     (let n = (of_char c :: nat)
      in if (65 \<le> n \<and> n \<le> 90) \<or> (192 \<le> n \<and> n \<le> 222 \<and> n \<noteq> 215)
         then char_of (n + 32) else c)"

definition toLowerCase :: "string \<Rightarrow> string" where
  "toLowerCase s = map toLowerCase_char s"

text \<open>
  An interpolated \<open>${x}\<close> in a template literal prints \<open>undefined\<close> for an undefined \<open>x\<close>.
\<close>

definition interpolate :: "string option \<Rightarrow> string" where
  "interpolate x = (case x of None \<Rightarrow> ''undefined'' | Some s \<Rightarrow> s)"

subsection \<open>Property reads on an object literal\<close>

text \<open>
  \<open>fixes[violation.id]\<close> reads a property of a plain object literal. A read first looks
  at the object's own properties and then follows the prototype chain, which for a
  literal is \<open>Object.prototype\<close>. The value of such a read is therefore either one of the
  literal's strings, or a member inherited from \<open>Object.prototype\<close> (a function, or for
  \<open>__proto__\<close> the prototype object itself), or \<open>undefined\<close>.
\<close>

datatype js_value = Str string | Inherited string

definition object_prototype_keys :: "string list" where
  "object_prototype_keys =
     [''constructor'', ''hasOwnProperty'', ''isPrototypeOf'', ''propertyIsEnumerable'',
      ''toLocaleString'', ''toString'', ''valueOf'', ''__proto__'',
      ''__defineGetter__'', ''__defineSetter__'', ''__lookupGetter__'', ''__lookupSetter__'']"

definition get_property :: "(string \<times> string) list \<Rightarrow> string \<Rightarrow> js_value option" where
  "get_property obj k =
     (case map_of obj k of
        Some s \<Rightarrow> Some (Str s)
      | None \<Rightarrow> if k \<in> set object_prototype_keys then Some (Inherited k) else None)"

text \<open>Truthiness: a string is truthy unless empty; functions and objects are truthy.\<close>

fun truthy :: "js_value \<Rightarrow> bool" where
  "truthy (Str s) = (s \<noteq> [])"
| "truthy (Inherited k) = True"

section \<open>Data model\<close>

datatype Impact = critical | serious | moderate | minor

fun impact_str :: "Impact \<Rightarrow> string" where
  "impact_str critical = ''critical''"
| "impact_str serious = ''serious''"
| "impact_str moderate = ''moderate''"
| "impact_str minor = ''minor''"

text \<open>
  \<open>A11yNode.data\<close> is optional, and \<open>generateFix\<close> reads it as a \<open>Record<string, string>\<close>.
\<close>

record A11yNode =
  html :: string
  target :: "string list"
  failureSummary :: string
  data :: "(string \<rightharpoonup> string) option"

record A11yViolation =
  id_violation :: string
  impact :: Impact
  description :: string
  help_text :: string
  helpUrl :: string
  tags :: "string list"
  nodes :: "A11yNode list"

record TrackInfo =
  kind :: string
  label_track :: string
  src_track :: string

record VideoInfo =
  type_video :: string
  src :: string
  hasTrack :: bool
  trackKinds :: "TrackInfo list"

text \<open>One entry of \<open>KeyboardNavResult.tabOrder\<close>.\<close>

record FocusedElement =
  tagName :: string
  id_element :: string
  className :: string
  text_element :: string
  hasFocusIndicator :: bool

record KeyboardNavResult =
  tabOrder :: "FocusedElement list"
  focusTraps :: "FocusedElement list"
  missingFocusIndicators :: "FocusedElement list"

record CopyPasteFix =
  issue :: string
  impact_fix :: string
  wcagCriteria :: "string list"
  elements :: nat
  fix_text :: js_value

section \<open>Fix template engine: \<open>generateFix\<close>\<close>

text \<open>
  The eleven entries of the \<open>fixes\<close> literal. Each is a template literal over the locals
  \<open>html\<close>, \<open>target\<close> and \<open>data\<close> of \<open>generateFix\<close>; every source line ends in a line feed.
\<close>

definition fix_color_contrast :: "string \<Rightarrow> string \<Rightarrow> (string \<rightharpoonup> string) option \<Rightarrow> string" where
  \<open>fix_color_contrast html' target' data' =
     ''\<newline>'' @
     ''/* Fix: Insufficient color contrast */\<newline>'' @
     ''/* Current ratio: '' @ (js_or (case data' of None \<Rightarrow> None | Some d \<Rightarrow> d ''ratio'') ''unknown'') @ '' (required: 4.5:1 for normal text, 3:1 for large text) */\<newline>'' @
     ''/* WCAG: 1.4.3 Contrast (Minimum) Level AA */\<newline>'' @
     ''\<newline>'' @
     ''/* Option 1: Darken text color */\<newline>'' @
     target' @ '' {\<newline>'' @
     ''  color: #1a1a1a; /* Higher contrast dark color */\<newline>'' @
     ''}\<newline>'' @
     ''\<newline>'' @
     ''/* Option 2: Lighten background */\<newline>'' @
     target' @ '' {\<newline>'' @
     ''  background-color: #ffffff;\<newline>'' @
     ''}\<newline>'' @
     ''\<newline>'' @
     ''/* Option 3: Both adjustments */\<newline>'' @
     target' @ '' {\<newline>'' @
     ''  color: #333333;\<newline>'' @
     ''  background-color: #fafafa;\<newline>'' @
     ''}\<newline>''\<close>

definition fix_label :: "string \<Rightarrow> string \<Rightarrow> (string \<rightharpoonup> string) option \<Rightarrow> string" where
  \<open>fix_label html' target' data' =
     ''\<newline>'' @
     ''<!-- Fix: Form input missing label -->\<newline>'' @
     ''<!-- WCAG: 1.3.1 Info and Relationships, 4.1.2 Name, Role, Value -->\<newline>'' @
     ''<!-- Before: -->\<newline>'' @
     html' @ ''\<newline>'' @
     ''\<newline>'' @
     ''<!-- After: Add explicit label -->\<newline>'' @
     ''<label for="input-id">\<newline>'' @
     ''  Descriptive Label Text\<newline>'' @
     ''</label>\<newline>'' @
     ''<input type="text" id="input-id" name="field-name" />\<newline>'' @
     ''\<newline>'' @
     ''<!-- Or use aria-label for visual hiding -->\<newline>'' @
     ''<input\<newline>'' @
     ''  type="text"\<newline>'' @
     ''  aria-label="Descriptive label for screen readers"\<newline>'' @
     ''  placeholder="Visual placeholder"\<newline>'' @
     ''/>\<newline>''\<close>

definition fix_image_alt :: "string \<Rightarrow> string \<Rightarrow> (string \<rightharpoonup> string) option \<Rightarrow> string" where
  \<open>fix_image_alt html' target' data' =
     ''\<newline>'' @
     ''<!-- Fix: Image missing alternative text -->\<newline>'' @
     ''<!-- WCAG: 1.1.1 Non-text Content Level A -->\<newline>'' @
     ''<!-- Before: -->\<newline>'' @
     html' @ ''\<newline>'' @
     ''\<newline>'' @
     ''<!-- After: Add descriptive alt text -->\<newline>'' @
     replace_tag_end '' alt="[Describe the image content and purpose]" />'' html' @ ''\<newline>'' @
     ''\<newline>'' @
     ''<!-- For decorative images only: -->\<newline>'' @
     replace_tag_end '' alt="" role="presentation" />'' html' @ ''\<newline>''\<close>

definition fix_button_name :: "string \<Rightarrow> string \<Rightarrow> (string \<rightharpoonup> string) option \<Rightarrow> string" where
  \<open>fix_button_name html' target' data' =
     ''\<newline>'' @
     ''<!-- Fix: Button has no accessible name -->\<newline>'' @
     ''<!-- WCAG: 4.1.2 Name, Role, Value Level A -->\<newline>'' @
     ''<!-- Before: -->\<newline>'' @
     html' @ ''\<newline>'' @
     ''\<newline>'' @
     ''<!-- Option 1: Add visible text -->\<newline>'' @
     ''<button type="button">\<newline>'' @
     ''  Click to Submit\<newline>'' @
     ''</button>\<newline>'' @
     ''\<newline>'' @
     ''<!-- Option 2: Add aria-label (for icon-only buttons) -->\<newline>'' @
     ''<button type="button" aria-label="Submit form">\<newline>'' @
     ''  <svg aria-hidden="true"><!-- icon --></svg>\<newline>'' @
     ''</button>\<newline>'' @
     ''\<newline>'' @
     ''<!-- Option 3: Use aria-labelledby -->\<newline>'' @
     ''<button type="button" aria-labelledby="btn-label">\<newline>'' @
     ''  <span id="btn-label" class="visually-hidden">Submit form</span>\<newline>'' @
     ''  <svg aria-hidden="true"><!-- icon --></svg>\<newline>'' @
     ''</button>\<newline>''\<close>

definition fix_link_name :: "string \<Rightarrow> string \<Rightarrow> (string \<rightharpoonup> string) option \<Rightarrow> string" where
  \<open>fix_link_name html' target' data' =
     ''\<newline>'' @
     ''<!-- Fix: Link has no accessible name -->\<newline>'' @
     ''<!-- WCAG: 2.4.4 Link Purpose, 4.1.2 Name, Role, Value -->\<newline>'' @
     ''<!-- Before: -->\<newline>'' @
     html' @ ''\<newline>'' @
     ''\<newline>'' @
     ''<!-- After: Add descriptive text -->\<newline>'' @
     ''<a href="/destination">\<newline>'' @
     ''  Descriptive Link Text\<newline>'' @
     ''</a>\<newline>'' @
     ''\<newline>'' @
     ''<!-- For icon links: -->\<newline>'' @
     ''<a href="/destination" aria-label="View user profile">\<newline>'' @
     ''  <svg aria-hidden="true"><!-- icon --></svg>\<newline>'' @
     ''</a>\<newline>''\<close>

definition fix_html_has_lang :: "string \<Rightarrow> string \<Rightarrow> (string \<rightharpoonup> string) option \<Rightarrow> string" where
  \<open>fix_html_has_lang html' target' data' =
     ''\<newline>'' @
     ''<!-- Fix: Page missing language attribute -->\<newline>'' @
     ''<!-- WCAG: 3.1.1 Language of Page Level A -->\<newline>'' @
     ''<!-- Before: -->\<newline>'' @
     ''<html>\<newline>'' @
     ''\<newline>'' @
     ''<!-- After: Add lang attribute -->\<newline>'' @
     ''<html lang="en">\<newline>'' @
     ''<!-- Use appropriate language code: en, es, fr, de, zh, etc. -->\<newline>''\<close>

definition fix_landmark_one_main :: "string \<Rightarrow> string \<Rightarrow> (string \<rightharpoonup> string) option \<Rightarrow> string" where
  \<open>fix_landmark_one_main html' target' data' =
     ''\<newline>'' @
     ''<!-- Fix: Page should have one main landmark -->\<newline>'' @
     ''<!-- WCAG: 1.3.1 Info and Relationships -->\<newline>'' @
     ''\<newline>'' @
     ''<!-- Add main landmark to page content -->\<newline>'' @
     ''<body>\<newline>'' @
     ''  <header>...</header>\<newline>'' @
     ''  <nav>...</nav>\<newline>'' @
     ''\<newline>'' @
     ''  <main id="main-content">\<newline>'' @
     ''    <!-- Primary page content here -->\<newline>'' @
     ''  </main>\<newline>'' @
     ''\<newline>'' @
     ''  <footer>...</footer>\<newline>'' @
     ''</body>\<newline>''\<close>

definition fix_region :: "string \<Rightarrow> string \<Rightarrow> (string \<rightharpoonup> string) option \<Rightarrow> string" where
  \<open>fix_region html' target' data' =
     ''\<newline>'' @
     ''<!-- Fix: Content not contained in a landmark region -->\<newline>'' @
     ''<!-- WCAG: 1.3.1 Info and Relationships -->\<newline>'' @
     ''\<newline>'' @
     ''<!-- Wrap content in appropriate landmarks -->\<newline>'' @
     ''<header role="banner">\<newline>'' @
     ''  <!-- Site header content -->\<newline>'' @
     ''</header>\<newline>'' @
     ''\<newline>'' @
     ''<nav role="navigation" aria-label="Main">\<newline>'' @
     ''  <!-- Navigation links -->\<newline>'' @
     ''</nav>\<newline>'' @
     ''\<newline>'' @
     ''<main role="main">\<newline>'' @
     ''  <!-- Primary content -->\<newline>'' @
     ''</main>\<newline>'' @
     ''\<newline>'' @
     ''<aside role="complementary">\<newline>'' @
     ''  <!-- Secondary content -->\<newline>'' @
     ''</aside>\<newline>'' @
     ''\<newline>'' @
     ''<footer role="contentinfo">\<newline>'' @
     ''  <!-- Footer content -->\<newline>'' @
     ''</footer>\<newline>''\<close>

definition fix_heading_order :: "string \<Rightarrow> string \<Rightarrow> (string \<rightharpoonup> string) option \<Rightarrow> string" where
  \<open>fix_heading_order html' target' data' =
     ''\<newline>'' @
     ''<!-- Fix: Heading levels should only increase by one -->\<newline>'' @
     ''<!-- WCAG: 1.3.1 Info and Relationships -->\<newline>'' @
     ''<!-- Don't skip from h1 to h3, or h2 to h4 -->\<newline>'' @
     ''\<newline>'' @
     ''<!-- Before (incorrect): -->\<newline>'' @
     ''<h1>Page Title</h1>\<newline>'' @
     ''<h3>Subsection</h3>  <!-- Skipped h2! -->\<newline>'' @
     ''\<newline>'' @
     ''<!-- After (correct): -->\<newline>'' @
     ''<h1>Page Title</h1>\<newline>'' @
     ''<h2>Section</h2>\<newline>'' @
     ''<h3>Subsection</h3>\<newline>''\<close>

definition fix_focus_order_semantics :: "string \<Rightarrow> string \<Rightarrow> (string \<rightharpoonup> string) option \<Rightarrow> string" where
  \<open>fix_focus_order_semantics html' target' data' =
     ''\<newline>'' @
     ''<!-- Fix: Focus order should follow logical reading order -->\<newline>'' @
     ''<!-- WCAG: 2.4.3 Focus Order Level A -->\<newline>'' @
     ''\<newline>'' @
     ''/* Avoid positive tabindex values */\<newline>'' @
     ''/* Before (incorrect): */\<newline>'' @
     ''<button tabindex="3">Third</button>\<newline>'' @
     ''<button tabindex="1">First</button>\<newline>'' @
     ''<button tabindex="2">Second</button>\<newline>'' @
     ''\<newline>'' @
     ''/* After (correct - use DOM order): */\<newline>'' @
     ''<button>First</button>\<newline>'' @
     ''<button>Second</button>\<newline>'' @
     ''<button>Third</button>\<newline>'' @
     ''\<newline>'' @
     ''/* Use tabindex="0" for custom focusable elements */\<newline>'' @
     ''<div role="button" tabindex="0">Custom Button</div>\<newline>'' @
     ''\<newline>'' @
     ''/* Use tabindex="-1" for programmatic focus only */\<newline>'' @
     ''<div tabindex="-1" id="error-message">Error!</div>\<newline>''\<close>

definition fix_target_size :: "string \<Rightarrow> string \<Rightarrow> (string \<rightharpoonup> string) option \<Rightarrow> string" where
  \<open>fix_target_size html' target' data' =
     ''\<newline>'' @
     ''<!-- Fix: Target size too small for touch -->\<newline>'' @
     ''<!-- WCAG: 2.5.8 Target Size (Minimum) Level AA -->\<newline>'' @
     ''<!-- Minimum 24x24 CSS pixels -->\<newline>'' @
     ''\<newline>'' @
     ''/* Before: */\<newline>'' @
     ''.small-button {\<newline>'' @
     ''  width: 16px;\<newline>'' @
     ''  height: 16px;\<newline>'' @
     ''}\<newline>'' @
     ''\<newline>'' @
     ''/* After: Meet minimum 24x24px */\<newline>'' @
     ''.accessible-button {\<newline>'' @
     ''  min-width: 24px;\<newline>'' @
     ''  min-height: 24px;\<newline>'' @
     ''  /* Or better: 44x44px for comfortable touch */\<newline>'' @
     ''  min-width: 44px;\<newline>'' @
     ''  min-height: 44px;\<newline>'' @
     ''}\<newline>''\<close>

definition fixes_table :: "string \<Rightarrow> string \<Rightarrow> (string \<rightharpoonup> string) option \<Rightarrow> (string \<times> string) list" where
  "fixes_table html' target' data' =
     [(''color-contrast'', fix_color_contrast html' target' data'),
      (''label'', fix_label html' target' data'),
      (''image-alt'', fix_image_alt html' target' data'),
      (''button-name'', fix_button_name html' target' data'),
      (''link-name'', fix_link_name html' target' data'),
      (''html-has-lang'', fix_html_has_lang html' target' data'),
      (''landmark-one-main'', fix_landmark_one_main html' target' data'),
      (''region'', fix_region html' target' data'),
      (''heading-order'', fix_heading_order html' target' data'),
      (''focus-order-semantics'', fix_focus_order_semantics html' target' data'),
      (''target-size'', fix_target_size html' target' data')]"

text \<open>The keys of the literal, in source order.\<close>

definition fix_keys :: "string list" where
  "fix_keys =
     [''color-contrast'', ''label'', ''image-alt'', ''button-name'', ''link-name'',
      ''html-has-lang'', ''landmark-one-main'', ''region'', ''heading-order'',
      ''focus-order-semantics'', ''target-size'']"

text \<open>The generic text after \<open>||\<close> in the \<open>return\<close> statement.\<close>

definition fix_manual :: "A11yViolation \<Rightarrow> string \<Rightarrow> string" where
  \<open>fix_manual violation html' =
     ''\<newline>'' @
     ''/* Manual fix required for: '' @ id_violation violation @ '' */\<newline>'' @
     ''/* Description: '' @ description violation @ '' */\<newline>'' @
     ''/* Help: '' @ helpUrl violation @ '' */\<newline>'' @
     ''/* Impact: '' @ impact_str (impact violation) @ '' */\<newline>'' @
     ''\<newline>'' @
     ''/* Affected element: */\<newline>'' @
     html' @ ''\<newline>'' @
     ''\<newline>'' @
     ''/* Recommendation: */\<newline>'' @
     ''/* '' @ help_text violation @ '' */\<newline>''\<close>

text \<open>
  The locals \<open>html\<close>, \<open>target\<close> and \<open>data\<close> of \<open>generateFix\<close>. \<open>node\<close> is \<open>violation.nodes[0]\<close>,
  which is \<open>undefined\<close> for an empty array, and every read through it uses \<open>?.\<close>; \<open>target\<close>
  is an array by its type, so \<open>node?.target[0]\<close> is \<open>undefined\<close> at worst.
\<close>

definition node_html :: "A11yViolation \<Rightarrow> string" where
  "node_html violation = js_or (map_option html (nth_opt (nodes violation) 0)) []"

definition node_target :: "A11yViolation \<Rightarrow> string" where
  "node_target violation =
     js_or (case nth_opt (nodes violation) 0 of
              None \<Rightarrow> None
            | Some node \<Rightarrow> nth_opt (target node) 0) []"

definition node_data :: "A11yViolation \<Rightarrow> (string \<rightharpoonup> string) option" where
  "node_data violation =
     (case nth_opt (nodes violation) 0 of None \<Rightarrow> None | Some node \<Rightarrow> data node)"

text \<open>
  \<open>generateFix\<close> returns \<open>fixes[violation.id] || `...`\<close>. It has no \<open>throw\<close> and no call that
  can fail on a value of its input type, hence no error result.
\<close>

definition generateFix :: "A11yViolation \<Rightarrow> js_value" where
  "generateFix violation =
     (let html' = node_html violation;
          target' = node_target violation;
          data' = node_data violation
      in case get_property (fixes_table html' target' data') (id_violation violation) of
           Some v \<Rightarrow> if truthy v then v else Str (fix_manual violation html')
         | None \<Rightarrow> Str (fix_manual violation html'))"

text \<open>The entry that \<open>scan\<close> builds for each violation.\<close>

definition copyPasteFix :: "A11yViolation \<Rightarrow> CopyPasteFix" where
  "copyPasteFix v =
     (\<lparr>issue = description v,
       impact_fix = impact_str (impact v),
       wcagCriteria = filter (\<lambda>t. prefix ''wcag'' t) (tags v),
       elements = length (nodes v),
       fix_text = generateFix v\<rparr>)"

subsection \<open>\<open>generateFix\<close> on violations as the scanner delivers them\<close>

text \<open>
  The interface \<open>A11yViolation\<close> is not checked at run time: the violations are whatever
  the page script returns. The records below describe such a violation. Its \<open>nodes\<close>
  array may be missing, and in a node each of \<open>html\<close>, \<open>target\<close> and \<open>data\<close> may be missing.
  The entries of \<open>data\<close> are of type \<open>unknown\<close>; they are taken to be JSON scalars, a number
  being given by the text that a template literal prints for it.
\<close>

datatype data_value = DNull | DBool bool | DNumber string | DString string

record RawNode =
  raw_html :: "string option"
  raw_target :: "string list option"
  raw_data :: "(string \<rightharpoonup> data_value) option"

record RawViolation =
  raw_id :: string
  raw_impact :: Impact
  raw_description :: string
  raw_help :: string
  raw_helpUrl :: string
  raw_tags :: "string list"
  raw_nodes :: "RawNode list option"

datatype js_error = TypeError

text \<open>
  \<open>x || 'unknown'\<close> prints \<open>x\<close> when it is truthy. \<open>null\<close>, \<open>false\<close>, the numbers \<open>0\<close> and \<open>NaN\<close> and
  the empty string are falsy. \<open>printed x\<close> is the text printed for a truthy \<open>x\<close> and the
  empty string for a falsy one, so that \<open>js_or\<close> chooses as the source does.
\<close>

fun printed :: "data_value \<Rightarrow> string" where
  "printed DNull = []"
| "printed (DBool b) = (if b then ''true'' else [])"
| "printed (DNumber s) = (if s = ''0'' \<or> s = ''NaN'' then [] else s)"
| "printed (DString s) = s"

definition printed_data :: "(string \<rightharpoonup> data_value) \<Rightarrow> (string \<rightharpoonup> string)" where
  "printed_data d = (\<lambda>k. map_option printed (d k))"

text \<open>The fields of a violation other than \<open>nodes\<close>.\<close>

definition header :: "RawViolation \<Rightarrow> A11yViolation" where
  "header rv =
     \<lparr>id_violation = raw_id rv, impact = raw_impact rv, description = raw_description rv,
      help_text = raw_help rv, helpUrl = raw_helpUrl rv, tags = raw_tags rv, nodes = []\<rparr>"

text \<open>The \<open>return\<close> statement of \<open>generateFix\<close>, given the three locals.\<close>

definition return_fix ::
  "A11yViolation \<Rightarrow> string \<Rightarrow> string \<Rightarrow> (string \<rightharpoonup> string) option \<Rightarrow> js_value" where
  "return_fix violation html' target' data' =
     (case get_property (fixes_table html' target' data') (id_violation violation) of
        Some v \<Rightarrow> if truthy v then v else Str (fix_manual violation html')
      | None \<Rightarrow> Str (fix_manual violation html'))"

text \<open>
  \<open>generateFix\<close>, statement by statement. \<open>violation.nodes[0]\<close> throws a \<open>TypeError\<close> when
  \<open>nodes\<close> is missing. \<open>node?.html\<close> and \<open>node?.data\<close> are \<open>undefined\<close> when the node or the
  field is missing. \<open>node?.target[0]\<close> guards the node only: for a node without \<open>target\<close>
  it indexes \<open>undefined\<close> and throws a \<open>TypeError\<close>.
\<close>

definition generateFix_raw :: "RawViolation \<Rightarrow> js_error + js_value" where
  "generateFix_raw rv =
     (case raw_nodes rv of
        None \<Rightarrow> Inl TypeError
      | Some ns \<Rightarrow>
          (case nth_opt ns 0 of
             None \<Rightarrow> Inr (return_fix (header rv) [] [] None)
           | Some node \<Rightarrow>
               (let html' = js_or (raw_html node) []
                in case raw_target node of
                     None \<Rightarrow> Inl TypeError
                   | Some t \<Rightarrow>
                       Inr (return_fix (header rv) html' (js_or (nth_opt t 0) [])
                              (map_option printed_data (raw_data node))))))"

text \<open>A violation that conforms to the interface, as the scanner delivers it.\<close>

definition raw_node_of :: "A11yNode \<Rightarrow> RawNode" where
  "raw_node_of n =
     \<lparr>raw_html = Some (html n), raw_target = Some (target n),
      raw_data = map_option (\<lambda>d k. map_option DString (d k)) (data n)\<rparr>"

definition raw_of :: "A11yViolation \<Rightarrow> RawViolation" where
  "raw_of v =
     \<lparr>raw_id = id_violation v, raw_impact = impact v, raw_description = description v,
      raw_help = help_text v, raw_helpUrl = helpUrl v, raw_tags = tags v,
      raw_nodes = Some (map raw_node_of (nodes v))\<rparr>"

section \<open>Caption fixes: \<open>generateCaptionFix\<close> and the agent's \<open>detectVideos\<close>\<close>

text \<open>
  The local \<open>filename\<close> of \<open>generateCaptionFix\<close>:
  \<open>video.src.split('/').pop()?.replace(/\.[^.]+$/, '') || 'video'\<close>.
\<close>

definition caption_filename :: "VideoInfo \<Rightarrow> string" where
  "caption_filename video =
     js_or (map_option (replace_ext []) (pop (split_on (CHR ''/'') (src video)))) ''video''"

definition caption_template :: "VideoInfo \<Rightarrow> string \<Rightarrow> string" where
  \<open>caption_template video filename =
     ''\<newline>'' @
     ''<!-- Video missing captions: '' @ src video @ '' -->\<newline>'' @
     ''<!-- WCAG: 1.2.2 Captions (Prerecorded) Level A -->\<newline>'' @
     ''<!-- WCAG: 1.2.3 Audio Description or Media Alternative Level A -->\<newline>'' @
     ''\<newline>'' @
     ''<!-- Before: -->\<newline>'' @
     ''<video src="'' @ src video @ ''"></video>\<newline>'' @
     ''\<newline>'' @
     ''<!-- After: Add caption and description tracks -->\<newline>'' @
     ''<video src="'' @ src video @ ''" controls>\<newline>'' @
     ''  <!-- Captions for deaf/hard-of-hearing users -->\<newline>'' @
     ''  <track\<newline>'' @
     ''    kind="captions"\<newline>'' @
     ''    src="/captions/'' @ filename @ ''.vtt"\<newline>'' @
     ''    srclang="en"\<newline>'' @
     ''    label="English Captions"\<newline>'' @
     ''    default\<newline>'' @
     ''  />\<newline>'' @
     ''\<newline>'' @
     ''  <!-- Subtitles for non-native speakers (optional) -->\<newline>'' @
     ''  <track\<newline>'' @
     ''    kind="subtitles"\<newline>'' @
     ''    src="/subtitles/'' @ filename @ ''-es.vtt"\<newline>'' @
     ''    srclang="es"\<newline>'' @
     ''    label="Spanish Subtitles"\<newline>'' @
     ''  />\<newline>'' @
     ''\<newline>'' @
     ''  <!-- Audio descriptions for blind users (optional but recommended) -->\<newline>'' @
     ''  <track\<newline>'' @
     ''    kind="descriptions"\<newline>'' @
     ''    src="/descriptions/'' @ filename @ ''-descriptions.vtt"\<newline>'' @
     ''    srclang="en"\<newline>'' @
     ''    label="Audio Descriptions"\<newline>'' @
     ''  />\<newline>'' @
     ''\<newline>'' @
     ''  <!-- Fallback for browsers that don't support video -->\<newline>'' @
     ''  <p>\<newline>'' @
     ''    Your browser doesn't support HTML5 video.\<newline>'' @
     ''    <a href="'' @ src video @ ''">Download the video</a> or\<newline>'' @
     ''    <a href="/transcripts/'' @ filename @ ''.html">read the transcript</a>.\<newline>'' @
     ''  </p>\<newline>'' @
     ''</video>\<newline>'' @
     ''\<newline>'' @
     ''<!-- WebVTT Caption File Template ('' @ filename @ ''.vtt): -->\<newline>'' @
     ''<!--\<newline>'' @
     ''WEBVTT\<newline>'' @
     ''\<newline>'' @
     ''1\<newline>'' @
     ''00:00:00.000 --> 00:00:03.000\<newline>'' @
     ''[Speaker name] First line of dialogue.\<newline>'' @
     ''\<newline>'' @
     ''2\<newline>'' @
     ''00:00:03.500 --> 00:00:07.000\<newline>'' @
     ''Second line of dialogue continues here.\<newline>'' @
     ''\<newline>'' @
     ''3\<newline>'' @
     ''00:00:07.500 --> 00:00:10.000\<newline>'' @
     ''[Sound effect description in brackets]\<newline>'' @
     ''-->\<newline>''\<close>

definition generateCaptionFix :: "VideoInfo \<Rightarrow> string" where
  "generateCaptionFix video = caption_template video (caption_filename video)"

text \<open>
  The page script of \<open>detectVideos\<close> maps every matched element to a \<open>VideoInfo\<close>. An
  element is given by the four things the script reads from it: its tag name, its \<open>src\<close>
  (a string, empty when the attribute is missing), its \<open>currentSrc\<close> (defined for
  \<open>video\<close> elements only) and its \<open>track\<close> children.
\<close>

record MediaElement =
  el_tagName :: string
  el_src :: string
  el_currentSrc :: "string option"
  el_tracks :: "TrackInfo list"

definition videoInfo_of :: "MediaElement \<Rightarrow> VideoInfo" where
  "videoInfo_of el =
     \<lparr>type_video = el_tagName el,
      src = js_or (if el_src el \<noteq> [] then Some (el_src el) else el_currentSrc el) [],
      hasTrack = (if el_tagName el = ''VIDEO'' then length (el_tracks el) > 0 else False),
      trackKinds = (if el_tagName el = ''VIDEO'' then el_tracks el else [])\<rparr>"

definition detectVideos :: "MediaElement list \<Rightarrow> VideoInfo list" where
  "detectVideos els = map videoInfo_of els"

text \<open>
  The agent definition's \<open>detectVideos\<close>, from the point where the page script has
  returned \<open>videos\<close>: it keeps the entries without a track in \<open>missingCaptions\<close>, writes one
  template per such entry to the console and returns both arrays. \<open>split\<close> never returns
  an empty array, so \<open>pop()\<close> is its last entry. The console output is the third
  component of the result.
\<close>

definition missing_caption_log :: "VideoInfo \<Rightarrow> string" where
  \<open>missing_caption_log video =
     ''\<newline>'' @
     ''<!-- Video missing captions: '' @ src video @ '' -->\<newline>'' @
     ''<!-- Add track element for captions: -->\<newline>'' @
     ''\<newline>'' @
     ''<video src="'' @ src video @ ''">\<newline>'' @
     ''  <track\<newline>'' @
     ''    kind="captions"\<newline>'' @
     ''    src="/captions/'' @ replace_ext ''.vtt'' (last (split_on (CHR ''/'') (src video))) @ ''"\<newline>'' @
     ''    srclang="en"\<newline>'' @
     ''    label="English"\<newline>'' @
     ''    default\<newline>'' @
     ''  />\<newline>'' @
     ''  <!-- Also add audio descriptions if needed: -->\<newline>'' @
     ''  <track\<newline>'' @
     ''    kind="descriptions"\<newline>'' @
     ''    src="/descriptions/'' @ replace_ext ''-descriptions.vtt'' (last (split_on (CHR ''/'') (src video))) @ ''"\<newline>'' @
     ''    srclang="en"\<newline>'' @
     ''    label="Audio Descriptions"\<newline>'' @
     ''  />\<newline>'' @
     ''</video>\<newline>'' @
     ''    ''\<close>

definition missingCaptions :: "VideoInfo list \<Rightarrow> VideoInfo list" where
  "missingCaptions videos = filter (\<lambda>v. \<not> hasTrack v) videos"

definition detectVideos_agent :: "VideoInfo list \<Rightarrow> VideoInfo list \<times> VideoInfo list \<times> string list" where
  "detectVideos_agent videos =
     (videos, missingCaptions videos, map missing_caption_log (missingCaptions videos))"

section \<open>Focus indicator fix: \<open>generateFocusIndicatorFix\<close>\<close>

text \<open>The local \<open>selector\<close>; an empty \<open>className\<close> is falsy.\<close>

definition focus_selector :: "FocusedElement \<Rightarrow> string" where
  "focus_selector element =
     (if className element \<noteq> []
      then ''.'' @ interpolate (nth_opt (split_on (CHR '' '') (className element)) 0)
      else toLowerCase (tagName element))"

definition focus_template :: "string \<Rightarrow> string" where
  \<open>focus_template selector =
     ''\<newline>'' @
     ''/* Fix: Missing visible focus indicator */\<newline>'' @
     ''/* WCAG: 2.4.7 Focus Visible Level AA */\<newline>'' @
     ''/* WCAG: 2.4.13 Focus Appearance Level AAA */\<newline>'' @
     ''\<newline>'' @
     ''/* Global focus styles */\<newline>'' @
     ''*:focus {\<newline>'' @
     ''  outline: 2px solid #005fcc;\<newline>'' @
     ''  outline-offset: 2px;\<newline>'' @
     ''}\<newline>'' @
     ''\<newline>'' @
     ''/* Or use focus-visible for keyboard-only focus */\<newline>'' @
     ''*:focus-visible {\<newline>'' @
     ''  outline: 2px solid #005fcc;\<newline>'' @
     ''  outline-offset: 2px;\<newline>'' @
     ''}\<newline>'' @
     ''\<newline>'' @
     ''/* Hide outline on mouse click but show for keyboard */\<newline>'' @
     ''*:focus:not(:focus-visible) {\<newline>'' @
     ''  outline: none;\<newline>'' @
     ''}\<newline>'' @
     ''\<newline>'' @
     ''/* Specific element fix */\<newline>'' @
     selector @ '':focus,\<newline>'' @
     selector @ '':focus-visible {\<newline>'' @
     ''  outline: 2px solid #005fcc;\<newline>'' @
     ''  outline-offset: 2px;\<newline>'' @
     ''  /* Alternative: box-shadow for rounded elements */\<newline>'' @
     ''  box-shadow: 0 0 0 3px rgba(0, 95, 204, 0.5);\<newline>'' @
     ''}\<newline>'' @
     ''\<newline>'' @
     ''/* High contrast mode support */\<newline>'' @
     ''@media (forced-colors: active) {\<newline>'' @
     ''  '' @ selector @ '':focus {\<newline>'' @
     ''    outline: 3px solid CanvasText;\<newline>'' @
     ''  }\<newline>'' @
     ''}\<newline>''\<close>

definition generateFocusIndicatorFix :: "FocusedElement \<Rightarrow> string" where
  "generateFocusIndicatorFix element = focus_template (focus_selector element)"

text \<open>
  The first whitespace-separated token of a string, as the words "whitespace-separated
  token" describe it: leading whitespace is skipped and the token ends at the next
  whitespace character. This definition follows the wording, not the source; it is what
  \<open>focus_selector\<close> is compared with.
\<close>

definition is_whitespace :: "char \<Rightarrow> bool" where
  "is_whitespace c = (c \<in> set [CHR '' '', CHR 0x09, CHR 0x0A, CHR 0x0C, CHR 0x0D])"

definition first_whitespace_token :: "string \<Rightarrow> string" where
  "first_whitespace_token s = takeWhile (\<lambda>c. \<not> is_whitespace c) (dropWhile is_whitespace s)"

section \<open>Focus walker: \<open>runKeyboardTest\<close>\<close>

text \<open>
  The browser is outside the program. \<open>observe i\<close> is what the page script returns in
  iteration \<open>i\<close> of the loop, after the \<open>Tab\<close> key press: \<open>None\<close> for \<open>null\<close> (no active element,
  or the body), otherwise the focused element.

  The loop body, for \<open>i\<close> from 0 to 29: a \<open>null\<close> observation is skipped by \<open>continue\<close>; an
  element is appended to \<open>tabOrder\<close>, and to \<open>missingFocusIndicators\<close> when it has no
  focus indicator; then the trap check reads \<open>tabOrder[i]\<close> and \<open>tabOrder[i - 1]\<close>, with
  \<open>?.\<close>, so a read past the end gives \<open>undefined\<close>. On a trap the element is appended to
  \<open>focusTraps\<close> and the loop ends by \<open>break\<close>.
\<close>

function keyboard_loop ::
  "(nat \<Rightarrow> FocusedElement option) \<Rightarrow> nat \<Rightarrow> KeyboardNavResult \<Rightarrow> KeyboardNavResult" where
  "keyboard_loop observe i results =
     (if i < 30 then
        (case observe i of
           None \<Rightarrow> keyboard_loop observe (i + 1) results
         | Some element \<Rightarrow>
             (let results1 = results\<lparr>tabOrder := tabOrder results @ [element]\<rparr>;
                  results2 = (if \<not> hasFocusIndicator element
                              then results1\<lparr>missingFocusIndicators :=
                                               missingFocusIndicators results1 @ [element]\<rparr>
                              else results1)
              in if i > 0 \<and>
                    map_option id_element (nth_opt (tabOrder results2) i) =
                      map_option id_element (nth_opt (tabOrder results2) (i - 1)) \<and>
                    map_option id_element (nth_opt (tabOrder results2) i) \<noteq> Some []
                 then results2\<lparr>focusTraps := focusTraps results2 @ [element]\<rparr>
                 else keyboard_loop observe (i + 1) results2))
      else results)"
  by pat_completeness auto
termination
  by (relation "measure (\<lambda>(observe, i, results). 30 - i)") auto

declare keyboard_loop.simps [simp del]

definition runKeyboardTest :: "(nat \<Rightarrow> FocusedElement option) \<Rightarrow> KeyboardNavResult" where
  "runKeyboardTest observe =
     keyboard_loop observe 0 \<lparr>tabOrder = [], focusTraps = [], missingFocusIndicators = []\<rparr>"

text \<open>
  The number of steps before step \<open>i\<close> at which the page script returned \<open>null\<close>. It is
  used to state what a walk with such steps returns; the scanner does not compute it.
\<close>

definition missed_steps :: "(nat \<Rightarrow> FocusedElement option) \<Rightarrow> nat \<Rightarrow> nat" where
  "missed_steps observe i = length (filter (\<lambda>j. observe j = None) [0..<i])"

text \<open>
  A walk given by a finite list of observations: step \<open>i\<close> observes the \<open>i\<close>-th entry, and
  no element has focus once the list is used up.
\<close>

definition observations :: "FocusedElement option list \<Rightarrow> nat \<Rightarrow> FocusedElement option" where
  "observations xs i = (case nth_opt xs i of None \<Rightarrow> None | Some x \<Rightarrow> x)"

text \<open>An element with a given id, for concrete walks.\<close>

definition el :: "string \<Rightarrow> FocusedElement" where
  "el i = \<lparr>tagName = ''BUTTON'', id_element = i, className = [], text_element = [],
           hasFocusIndicator = True\<rparr>"

section \<open>Tag resolver: \<open>getWcagTags\<close>\<close>

datatype WcagLevel = A | AA | AAA

text \<open>
  \<open>baseTags\<close> starts as \<open>['wcag2a', 'wcag21a']\<close>; each \<open>push\<close> appends at the end.
\<close>

definition getWcagTags :: "WcagLevel \<Rightarrow> string list" where
  "getWcagTags level =
     (let baseTags = [''wcag2a'', ''wcag21a''];
          baseTags = (if level = AA \<or> level = AAA
                      then baseTags @ [''wcag2aa'', ''wcag21aa'', ''wcag22aa'']
                      else baseTags);
          baseTags = (if level = AAA
                      then baseTags @ [''wcag2aaa'', ''wcag21aaa'']
                      else baseTags)
      in baseTags)"

text \<open>The strictness order of the conformance levels, \<open>A < AA < AAA\<close>.\<close>

fun level_rank :: "WcagLevel \<Rightarrow> nat" where
  "level_rank A = 0"
| "level_rank AA = 1"
| "level_rank AAA = 2"

section \<open>Concrete inputs\<close>

text \<open>The contrast violation of the end-to-end example.\<close>

definition contrast_node :: A11yNode where
  "contrast_node =
     \<lparr>html = ''<p class=\"low-contrast-text\">Hi</p>'',
      target = [''.low-contrast-text''], failureSummary = ''Fix any of the following'',
      data = Some [''ratio'' \<mapsto> ''2.1'']\<rparr>"

definition contrast_violation :: A11yViolation where
  "contrast_violation =
     \<lparr>id_violation = ''color-contrast'', impact = serious,
      description = ''Elements must have sufficient color contrast'',
      help_text = ''Increase the contrast'', helpUrl = ''https://example.org/color-contrast'',
      tags = [''wcag2aa'', ''wcag143''],
      nodes = [contrast_node]\<rparr>"

text \<open>The video of the caption example.\<close>

definition intro_video :: VideoInfo where
  "intro_video =
     \<lparr>type_video = ''VIDEO'', src = ''/media/intro.mp4'', hasTrack = False, trackKinds = []\<rparr>"

text \<open>
  A contrast violation as a scanner may deliver it: its only node has a target and
  neither markup nor data.
\<close>

definition bare_node :: RawNode where
  "bare_node = \<lparr>raw_html = None, raw_target = Some [''.low-contrast-text''], raw_data = None\<rparr>"

definition bare_contrast_violation :: RawViolation where
  "bare_contrast_violation =
     \<lparr>raw_id = ''color-contrast'', raw_impact = serious,
      raw_description = ''Elements must have sufficient color contrast'',
      raw_help = ''Increase the contrast'', raw_helpUrl = ''https://example.org/color-contrast'',
      raw_tags = [''wcag2aa''], raw_nodes = Some [bare_node]\<rparr>"

text \<open>
  A walk in which step 1 finds no focused element and every other step finds an element
  with an id of its own.
\<close>

definition one_null_walk :: "nat \<Rightarrow> FocusedElement option" where
  "one_null_walk i = (if i = 1 then None else Some (el (replicate (Suc i) (CHR ''a''))))"

section \<open>Substring facts\<close>

lemma str_includes_here: "str_includes (t @ r) t"
  by (simp add: str_includes_def)

lemma str_includes_later: "str_includes r t \<Longrightarrow> str_includes (p @ r) t"
  unfolding str_includes_def by (metis sublist_append)

section \<open>Properties of \<open>generateFix\<close>\<close>

lemma fixes_table_keys: "map fst (fixes_table h t d) = fix_keys"
  by (simp add: fixes_table_def fix_keys_def)

lemma map_of_fixes_table_None:
  "k \<notin> set fix_keys \<Longrightarrow> map_of (fixes_table h t d) k = None"
  by (metis fixes_table_keys map_of_eq_None_iff list.set_map)

text \<open>
  A rule id that is neither a key of the literal nor the name of a member of
  \<open>Object.prototype\<close> gets the generic text, which shows the description, the help URL,
  the impact and the markup of the first node.
\<close>

lemma generateFix_unregistered:
  assumes "id_violation v \<notin> set fix_keys"
    and "id_violation v \<notin> set object_prototype_keys"
  shows "generateFix v = Str (fix_manual v (node_html v))"
  using assms by (simp add: generateFix_def get_property_def map_of_fixes_table_None)

lemma fix_manual_includes:
  "str_includes (fix_manual v h) (description v)"
  "str_includes (fix_manual v h) (helpUrl v)"
  "str_includes (fix_manual v h) (impact_str (impact v))"
  "str_includes (fix_manual v h) h"
  unfolding fix_manual_def
  by (intro str_includes_here str_includes_later)+

text \<open>
  A rule id that names a member of \<open>Object.prototype\<close> is not a key of the literal, yet
  the property read finds the inherited member, which is truthy, and \<open>generateFix\<close>
  returns it.
\<close>

lemma generateFix_inherited:
  assumes "id_violation v \<in> set object_prototype_keys"
  shows "generateFix v = Inherited (id_violation v)"
proof -
  have "id_violation v \<notin> set fix_keys"
    using assms by (auto simp: object_prototype_keys_def fix_keys_def)
  then show ?thesis
    using assms by (simp add: generateFix_def get_property_def map_of_fixes_table_None)
qed

text \<open>
  C1. A violation whose rule id is not a key of the template table should get the
  generic fallback text. For the rule id \<open>constructor\<close>, which is not a key of the table,
  \<open>generateFix\<close> returns the function inherited from \<open>Object.prototype\<close> instead of the
  fallback text, and so not a string at all.
\<close>

theorem generateFix_constructor:
  "generateFix \<lparr>id_violation = ''constructor'', impact = minor, description = ''d'',
                 help_text = ''h'', helpUrl = ''u'', tags = [], nodes = []\<rparr>
   = Inherited ''constructor''"
  by (simp add: generateFix_inherited object_prototype_keys_def)

lemma fix_color_contrast_ratio_only:
  assumes "map_option (\<lambda>d. d ''ratio'') d1 = map_option (\<lambda>d. d ''ratio'') d2"
  shows "fix_color_contrast h t d1 = fix_color_contrast h t d2"
proof -
  have "(case d1 of None \<Rightarrow> None | Some d \<Rightarrow> d ''ratio'') =
        (case d2 of None \<Rightarrow> None | Some d \<Rightarrow> d ''ratio'')"
    using assms by (cases d1; cases d2) auto
  then show ?thesis
    by (simp add: fix_color_contrast_def)
qed

lemma fixes_table_ratio_only:
  assumes "map_option (\<lambda>d. d ''ratio'') d1 = map_option (\<lambda>d. d ''ratio'') d2"
  shows "fixes_table h t d1 = fixes_table h t d2"
  unfolding fixes_table_def
  by (simp add: fix_color_contrast_ratio_only [OF assms] fix_label_def fix_image_alt_def
      fix_button_name_def fix_link_name_def fix_html_has_lang_def fix_landmark_one_main_def
      fix_region_def fix_heading_order_def fix_focus_order_semantics_def fix_target_size_def)

lemma fix_manual_reads:
  assumes "id_violation v1 = id_violation v2" "description v1 = description v2"
    "helpUrl v1 = helpUrl v2" "impact v1 = impact v2" "help_text v1 = help_text v2"
  shows "fix_manual v1 h = fix_manual v2 h"
  using assms by (simp add: fix_manual_def)

text \<open>
  The result of \<open>generateFix\<close> is fixed by the parts of the violation that the function
  reads: its id, description, help text, help URL and impact, and of the first node the
  markup, the first selector and the \<open>ratio\<close> entry of the data.
\<close>

lemma generateFix_reads:
  assumes "id_violation v1 = id_violation v2" "description v1 = description v2"
    "helpUrl v1 = helpUrl v2" "impact v1 = impact v2" "help_text v1 = help_text v2"
    "node_html v1 = node_html v2" "node_target v1 = node_target v2"
    "map_option (\<lambda>d. d ''ratio'') (node_data v1) = map_option (\<lambda>d. d ''ratio'') (node_data v2)"
  shows "generateFix v1 = generateFix v2"
proof -
  have t: "fixes_table (node_html v1) (node_target v1) (node_data v1) =
           fixes_table (node_html v2) (node_target v2) (node_data v2)"
    using assms(6,7) fixes_table_ratio_only [OF assms(8)] by simp
  have m: "fix_manual v1 (node_html v1) = fix_manual v2 (node_html v2)"
    using assms(6) fix_manual_reads [OF assms(1-5)] by simp
  show ?thesis
    unfolding generateFix_def Let_def t m using assms(1) by simp
qed

lemma fix_color_contrast_nonempty: "fix_color_contrast h t d \<noteq> []"
  by (simp add: fix_color_contrast_def)

lemma fix_label_nonempty: "fix_label h t d \<noteq> []"
  by (simp add: fix_label_def)

lemma generateFix_color_contrast:
  assumes "id_violation v = ''color-contrast''"
  shows "generateFix v = Str (fix_color_contrast (node_html v) (node_target v) (node_data v))"
  using assms
  by (simp add: generateFix_def get_property_def fixes_table_def Let_def
      fix_color_contrast_nonempty)

lemma generateFix_label:
  assumes "id_violation v = ''label''"
  shows "generateFix v = Str (fix_label (node_html v) (node_target v) (node_data v))"
  using assms
  by (simp add: generateFix_def get_property_def fixes_table_def Let_def fix_label_nonempty)

lemma color_contrast_text:
  assumes "d ''ratio'' = Some ''2.1''"
  shows "fix_color_contrast h t (Some d) = fix_color_contrast [] t (Some [''ratio'' \<mapsto> ''2.1''])"
  using assms by (simp add: fix_color_contrast_def)

text \<open>
  C3. For a \<open>color-contrast\<close> violation whose first node has the selector
  \<open>.low-contrast-text\<close> and the measured ratio \<open>2.1\<close>, the generated text shows the ratio
  \<open>2.1\<close>, the selector and the citation \<open>1.4.3\<close>, and it offers two separate remedies for
  that selector: a darker text colour (option 1) and a lighter background (option 2).
\<close>

theorem generateFix_contrast_example:
  assumes "id_violation v = ''color-contrast''"
    and "nodes v = n # ns"
    and "target n = [''.low-contrast-text'']"
    and "data n = Some d"
    and "d ''ratio'' = Some ''2.1''"
  shows "\<exists>s. generateFix v = Str s \<and>
             str_includes s ''2.1'' \<and>
             str_includes s ''/* Current ratio: 2.1 (required: 4.5:1 for normal text'' \<and>
             str_includes s ''.low-contrast-text'' \<and>
             str_includes s ''1.4.3'' \<and>
             str_includes s ''/* Option 1: Darken text color */\<newline>.low-contrast-text {\<newline>  color: #1a1a1a;'' \<and>
             str_includes s ''/* Option 2: Lighten background */\<newline>.low-contrast-text {\<newline>  background-color: #ffffff;''"
proof -
  let ?s = "fix_color_contrast [] ''.low-contrast-text'' (Some [''ratio'' \<mapsto> ''2.1''])"
  have t: "node_target v = ''.low-contrast-text''"
    using assms by (simp add: node_target_def nth_opt_def js_or_def)
  have d: "node_data v = Some d"
    using assms by (simp add: node_data_def nth_opt_def)
  have "generateFix v = Str ?s"
    using generateFix_color_contrast [OF assms(1)] assms(5)
      color_contrast_text [where d = d and h = "node_html v" and t = "node_target v"]
    by (simp add: t d)
  moreover have "str_includes ?s ''2.1''" by code_simp
  moreover have "str_includes ?s ''/* Current ratio: 2.1 (required: 4.5:1 for normal text''"
    by code_simp
  moreover have "str_includes ?s ''.low-contrast-text''" by code_simp
  moreover have "str_includes ?s ''1.4.3''" by code_simp
  moreover have "str_includes ?s ''/* Option 1: Darken text color */\<newline>.low-contrast-text {\<newline>  color: #1a1a1a;''"
    by code_simp
  moreover have "str_includes ?s ''/* Option 2: Lighten background */\<newline>.low-contrast-text {\<newline>  background-color: #ffffff;''"
    by code_simp
  ultimately show ?thesis by blast
qed

theorem generateFix_contrast_example_witness:
  "\<exists>s. generateFix contrast_violation = Str s \<and>
             str_includes s ''2.1'' \<and>
             str_includes s ''/* Current ratio: 2.1 (required: 4.5:1 for normal text'' \<and>
             str_includes s ''.low-contrast-text'' \<and>
             str_includes s ''1.4.3'' \<and>
             str_includes s ''/* Option 1: Darken text color */\<newline>.low-contrast-text {\<newline>  color: #1a1a1a;'' \<and>
             str_includes s ''/* Option 2: Lighten background */\<newline>.low-contrast-text {\<newline>  background-color: #ffffff;''"
  by (rule generateFix_contrast_example
        [of contrast_violation contrast_node "[]" "[''ratio'' \<mapsto> ''2.1'']"])
     (simp_all add: contrast_violation_def contrast_node_def)

text \<open>
  C4, as stated, fails: a \<open>label\<close> violation with an empty \<open>nodes\<close> array gets a text in
  which the missing markup is left out, and the word \<open>unknown\<close> does not occur.
\<close>

theorem generateFix_empty_nodes_no_placeholder:
  "generateFix \<lparr>id_violation = ''label'', impact = serious, description = ''d'',
                 help_text = ''h'', helpUrl = ''u'', tags = [], nodes = []\<rparr>
     = Str (fix_label [] [] None) \<and>
   \<not> str_includes (fix_label [] [] None) ''unknown''"
proof
  show "generateFix \<lparr>id_violation = ''label'', impact = serious, description = ''d'',
                 help_text = ''h'', helpUrl = ''u'', tags = [], nodes = []\<rparr>
     = Str (fix_label [] [] None)"
    by (simp add: generateFix_label node_html_def node_target_def node_data_def nth_opt_def js_or_def)
  show "\<not> str_includes (fix_label [] [] None) ''unknown''"
    by code_simp
qed

lemma ratio_unknown:
  assumes "map_option (\<lambda>d. d ''ratio'') dd = None \<or> map_option (\<lambda>d. d ''ratio'') dd = Some None
           \<or> map_option (\<lambda>d. d ''ratio'') dd = Some (Some [])"
  shows "fix_color_contrast h t dd = fix_color_contrast h t None"
  using assms by (cases dd) (auto simp: fix_color_contrast_def js_or_def)

lemma color_contrast_unknown:
  "str_includes (fix_color_contrast h t None) ''/* Current ratio: unknown (required:''"
proof -
  have "fix_color_contrast h t None =
        ''\<newline>/* Fix: Insufficient color contrast */\<newline>'' @
        (''/* Current ratio: unknown (required:'' @
         '' 4.5:1 for normal text, 3:1 for large text) */\<newline>'' @
         ''/* WCAG: 1.4.3 Contrast (Minimum) Level AA */\<newline>'' @
         ''\<newline>'' @
         ''/* Option 1: Darken text color */\<newline>'' @
         t @ '' {\<newline>'' @
         ''  color: #1a1a1a; /* Higher contrast dark color */\<newline>'' @
         ''}\<newline>'' @
         ''\<newline>'' @
         ''/* Option 2: Lighten background */\<newline>'' @
         t @ '' {\<newline>'' @
         ''  background-color: #ffffff;\<newline>'' @
         ''}\<newline>'' @
         ''\<newline>'' @
         ''/* Option 3: Both adjustments */\<newline>'' @
         t @ '' {\<newline>'' @
         ''  color: #333333;\<newline>'' @
         ''  background-color: #fafafa;\<newline>'' @
         ''}\<newline>'')"
    by (simp add: fix_color_contrast_def js_or_def)
  then show ?thesis
    by (metis str_includes_here str_includes_later)
qed

lemma generateFix_return_fix:
  "generateFix v = return_fix v (node_html v) (node_target v) (node_data v)"
  by (simp add: generateFix_def return_fix_def Let_def)

lemma printed_data_DString:
  "printed_data (\<lambda>k. map_option DString (d k)) = d"
  by (rule ext) (simp add: printed_data_def option.map_comp comp_def option.map_ident)

text \<open>
  On a violation that conforms to the interface, the statement-by-statement reading
  returns what \<open>generateFix\<close> returns: nothing is thrown there.
\<close>

lemma return_fix_header: "return_fix (header (raw_of v)) x y z = return_fix v x y z"
proof -
  have "fix_manual (header (raw_of v)) x = fix_manual v x"
    by (simp add: fix_manual_def header_def raw_of_def)
  moreover have "id_violation (header (raw_of v)) = id_violation v"
    by (simp add: header_def raw_of_def)
  ultimately show ?thesis
    by (simp add: return_fix_def split: option.splits)
qed

lemma generateFix_raw_typed: "generateFix_raw (raw_of v) = Inr (generateFix v)"
proof (cases "nodes v")
  case Nil
  then have "generateFix_raw (raw_of v) = Inr (return_fix (header (raw_of v)) [] [] None)"
    by (simp add: generateFix_raw_def raw_of_def nth_opt_def)
  moreover have "node_html v = [] \<and> node_target v = [] \<and> node_data v = None"
    using Nil by (simp add: node_html_def node_target_def node_data_def nth_opt_def js_or_def)
  ultimately show ?thesis
    by (simp add: generateFix_return_fix return_fix_header)
next
  case (Cons n ns)
  then have "generateFix_raw (raw_of v) =
             Inr (return_fix (header (raw_of v)) (js_or (Some (html n)) [])
                    (js_or (nth_opt (target n) 0) []) (data n))"
    by (simp add: generateFix_raw_def raw_of_def nth_opt_def raw_node_of_def
        printed_data_DString option.map_comp comp_def option.map_ident)
  moreover have "node_html v = js_or (Some (html n)) [] \<and>
                 node_target v = js_or (nth_opt (target n) 0) [] \<and> node_data v = data n"
    using Cons by (simp add: node_html_def node_target_def node_data_def nth_opt_def)
  ultimately show ?thesis
    by (simp add: generateFix_return_fix return_fix_header)
qed

text \<open>A missing \<open>nodes\<close> array and a first node without \<open>target\<close> make \<open>generateFix\<close> throw.\<close>

lemma generateFix_raw_throws:
  assumes "raw_nodes rv = None \<or>
           (\<exists>ns n. raw_nodes rv = Some ns \<and> nth_opt ns 0 = Some n \<and> raw_target n = None)"
  shows "generateFix_raw rv = Inl TypeError"
  using assms by (auto simp: generateFix_raw_def)

lemma return_fix_color_contrast:
  assumes "id_violation v = ''color-contrast''"
  shows "return_fix v h t d = Str (fix_color_contrast h t d)"
  using assms
  by (simp add: return_fix_def get_property_def fixes_table_def fix_color_contrast_nonempty)

text \<open>
  C4, amended. Let the \<open>nodes\<close> array be present and let its first node, if there is one,
  have a \<open>target\<close> array. Then \<open>generateFix\<close> returns a value and does not throw, also for
  an empty \<open>nodes\<close> array and for a first node without markup, data or ratio. When the
  first node, its data or its ratio is missing, or the ratio is falsy, the
  \<open>color-contrast\<close> text shows the ratio as \<open>unknown\<close>. For an empty \<open>nodes\<close> array the markup
  and the selector are the empty string, and a node without markup is treated as one
  with empty markup.
\<close>

theorem generateFix_raw_missing_node_data:
  assumes "raw_nodes rv = Some ns"
    and "\<forall>n. nth_opt ns 0 = Some n \<longrightarrow> raw_target n \<noteq> None"
  shows "(\<exists>x. generateFix_raw rv = Inr x) \<and>
         (raw_id rv = ''color-contrast'' \<and>
          (ns = [] \<or>
           (\<exists>n. nth_opt ns 0 = Some n \<and>
              (raw_data n = None \<or>
               (\<exists>d. raw_data n = Some d \<and>
                  (d ''ratio'' = None \<or> (\<exists>x. d ''ratio'' = Some x \<and> printed x = []))))))
          \<longrightarrow> (\<exists>s. generateFix_raw rv = Inr (Str s) \<and>
                   str_includes s ''/* Current ratio: unknown (required:'')) \<and>
         (ns = [] \<longrightarrow> generateFix_raw rv = Inr (return_fix (header rv) [] [] None)) \<and>
         (\<forall>n. nth_opt ns 0 = Some n \<and> raw_html n = None
           \<longrightarrow> generateFix_raw rv =
                 generateFix_raw (rv\<lparr>raw_nodes := Some [n\<lparr>raw_html := Some []\<rparr>]\<rparr>))"
proof (intro conjI)
  show "\<exists>x. generateFix_raw rv = Inr x"
    using assms by (auto simp: generateFix_raw_def Let_def split: option.splits)
next
  show "raw_id rv = ''color-contrast'' \<and>
          (ns = [] \<or>
           (\<exists>n. nth_opt ns 0 = Some n \<and>
              (raw_data n = None \<or>
               (\<exists>d. raw_data n = Some d \<and>
                  (d ''ratio'' = None \<or> (\<exists>x. d ''ratio'' = Some x \<and> printed x = []))))))
          \<longrightarrow> (\<exists>s. generateFix_raw rv = Inr (Str s) \<and>
                   str_includes s ''/* Current ratio: unknown (required:'')"
  proof
    assume a: "raw_id rv = ''color-contrast'' \<and>
          (ns = [] \<or>
           (\<exists>n. nth_opt ns 0 = Some n \<and>
              (raw_data n = None \<or>
               (\<exists>d. raw_data n = Some d \<and>
                  (d ''ratio'' = None \<or> (\<exists>x. d ''ratio'' = Some x \<and> printed x = []))))))"
    have i: "id_violation (header rv) = ''color-contrast''"
      using a by (simp add: header_def)
    obtain h t dd where g: "generateFix_raw rv = Inr (return_fix (header rv) h t dd)"
      and m: "map_option (\<lambda>d. d ''ratio'') dd = None \<or>
              map_option (\<lambda>d. d ''ratio'') dd = Some None \<or>
              map_option (\<lambda>d. d ''ratio'') dd = Some (Some [])"
    proof (cases "nth_opt ns 0")
      case None
      then have "generateFix_raw rv = Inr (return_fix (header rv) [] [] None)"
        using assms(1) by (simp add: generateFix_raw_def)
      then show ?thesis using that [of "[]" "[]" None] by simp
    next
      case (Some n)
      then obtain t where t: "raw_target n = Some t"
        using assms(2) by auto
      have g: "generateFix_raw rv =
               Inr (return_fix (header rv) (js_or (raw_html n) []) (js_or (nth_opt t 0) [])
                      (map_option printed_data (raw_data n)))"
        using assms(1) Some t by (simp add: generateFix_raw_def)
      have "ns \<noteq> []"
        using Some by (auto simp: nth_opt_def)
      then have "raw_data n = None \<or>
               (\<exists>d. raw_data n = Some d \<and>
                  (d ''ratio'' = None \<or> (\<exists>x. d ''ratio'' = Some x \<and> printed x = [])))"
        using a Some by auto
      then have "map_option (\<lambda>d. d ''ratio'') (map_option printed_data (raw_data n)) = None \<or>
              map_option (\<lambda>d. d ''ratio'') (map_option printed_data (raw_data n)) = Some None \<or>
              map_option (\<lambda>d. d ''ratio'') (map_option printed_data (raw_data n)) = Some (Some [])"
        by (auto simp: printed_data_def)
      then show ?thesis using that g by blast
    qed
    have "return_fix (header rv) h t dd = Str (fix_color_contrast h t None)"
      using return_fix_color_contrast [OF i] ratio_unknown [OF m] by simp
    then show "\<exists>s. generateFix_raw rv = Inr (Str s) \<and>
                   str_includes s ''/* Current ratio: unknown (required:''"
      using g color_contrast_unknown by auto
  qed
next
  show "ns = [] \<longrightarrow> generateFix_raw rv = Inr (return_fix (header rv) [] [] None)"
    using assms(1) by (simp add: generateFix_raw_def nth_opt_def)
next
  show "\<forall>n. nth_opt ns 0 = Some n \<and> raw_html n = None
           \<longrightarrow> generateFix_raw rv =
                 generateFix_raw (rv\<lparr>raw_nodes := Some [n\<lparr>raw_html := Some []\<rparr>]\<rparr>)"
    using assms(1)
    by (auto simp: generateFix_raw_def nth_opt_def js_or_def header_def split: option.splits)
qed


theorem generateFix_raw_missing_node_data_witness:
  "(\<exists>s. generateFix_raw bare_contrast_violation = Inr (Str s) \<and>
        str_includes s ''/* Current ratio: unknown (required:'') \<and>
   generateFix_raw bare_contrast_violation =
     generateFix_raw (bare_contrast_violation
                        \<lparr>raw_nodes := Some [bare_node\<lparr>raw_html := Some []\<rparr>]\<rparr>) \<and>
   generateFix_raw (bare_contrast_violation\<lparr>raw_nodes := Some []\<rparr>) =
     Inr (return_fix (header (bare_contrast_violation\<lparr>raw_nodes := Some []\<rparr>)) [] [] None)"
proof -
  have n: "raw_nodes bare_contrast_violation = Some [bare_node]"
    by (simp add: bare_contrast_violation_def)
  have f: "nth_opt [bare_node] 0 = Some bare_node"
    by (simp add: nth_opt_def)
  have t: "\<forall>n. nth_opt [bare_node] 0 = Some n \<longrightarrow> raw_target n \<noteq> None"
    by (simp add: nth_opt_def bare_node_def)
  have i: "raw_id bare_contrast_violation = ''color-contrast''"
    by (simp add: bare_contrast_violation_def)
  have d: "raw_data bare_node = None" "raw_html bare_node = None"
    by (simp_all add: bare_node_def)
  have e: "raw_nodes (bare_contrast_violation\<lparr>raw_nodes := Some []\<rparr>) = Some []"
    by simp
  have u: "\<forall>n. nth_opt ([] :: RawNode list) 0 = Some n \<longrightarrow> raw_target n \<noteq> None"
    by (simp add: nth_opt_def)
  show ?thesis
    using generateFix_raw_missing_node_data [OF n t] f i d
      generateFix_raw_missing_node_data [OF e u]
    by blast
qed

section \<open>Properties of the tag resolver\<close>

lemma getWcagTags_A: "getWcagTags A = [''wcag2a'', ''wcag21a'']"
  by (simp add: getWcagTags_def)

lemma getWcagTags_AA:
  "getWcagTags AA = [''wcag2a'', ''wcag21a'', ''wcag2aa'', ''wcag21aa'', ''wcag22aa'']"
  by (simp add: getWcagTags_def)

lemma getWcagTags_AAA:
  "getWcagTags AAA =
     [''wcag2a'', ''wcag21a'', ''wcag2aa'', ''wcag21aa'', ''wcag22aa'', ''wcag2aaa'', ''wcag21aaa'']"
  by (simp add: getWcagTags_def)

text \<open>
  C5. For conformance levels \<open>L1 < L2\<close> (with \<open>A < AA < AAA\<close>) the tags returned for
  \<open>L1\<close> are among the tags returned for \<open>L2\<close>: the stricter level returns the tags of the
  weaker one first, in the same order, followed by further tags.
\<close>

theorem getWcagTags_monotone:
  "level_rank l1 < level_rank l2 \<Longrightarrow>
     set (getWcagTags l1) \<subseteq> set (getWcagTags l2) \<and>
     (\<exists>more. more \<noteq> [] \<and> getWcagTags l2 = getWcagTags l1 @ more)"
proof (cases l1; cases l2)
  assume "l1 = A" "l2 = AA"
  then show ?thesis by (simp add: getWcagTags_A getWcagTags_AA)
next
  assume "l1 = A" "l2 = AAA"
  then show ?thesis by (simp add: getWcagTags_A getWcagTags_AAA)
next
  assume "l1 = AA" "l2 = AAA"
  then show ?thesis by (simp add: getWcagTags_AA getWcagTags_AAA)
qed simp_all

theorem getWcagTags_monotone_witness:
  "level_rank A < level_rank AA \<and>
   set (getWcagTags A) \<subseteq> set (getWcagTags AA) \<and>
   (\<exists>more. more \<noteq> [] \<and> getWcagTags AA = getWcagTags A @ more)"
  using getWcagTags_monotone [of A AA] by simp

section \<open>Properties of the caption fixes\<close>

lemma split_on_nonempty: "split_on c s \<noteq> []"
  by (induction s) (auto split: list.splits)

lemma split_on_no_separator: "c \<notin> set s \<Longrightarrow> split_on c s = [s]"
  by (induction s) auto

lemma split_on_append: "split_on c (p @ c # s) = split_on c p @ split_on c s"
proof (induction p)
  case Nil
  show ?case by simp
next
  case (Cons x p)
  obtain q qs where q: "split_on c p = q # qs"
    using split_on_nonempty [of c p] by (cases "split_on c p") auto
  show ?case
    using Cons q by simp
qed

lemma last_split_on:
  assumes "dir = [] \<or> last dir = c" and "c \<notin> set s"
  shows "last (split_on c (dir @ s)) = s"
proof (cases "dir = []")
  case True
  then show ?thesis using assms(2) by (simp add: split_on_no_separator)
next
  case False
  then obtain p where p: "dir = p @ [c]"
    using assms(1) by (metis append_butlast_last_id)
  have "split_on c (dir @ s) = split_on c p @ split_on c s"
    using split_on_append [of c p s] by (simp add: p)
  then show ?thesis
    using assms(2) by (simp add: split_on_no_separator)
qed

lemma replace_ext_extension:
  assumes "ext \<noteq> []" and "CHR ''.'' \<notin> set ext"
  shows "replace_ext rep (name @ ''.'' @ ext) = name @ rep"
  using assms by (induction name) auto

lemma replace_ext_no_dot: "CHR ''.'' \<notin> set s \<Longrightarrow> replace_ext rep s = s"
  by (induction s) auto

lemma caption_filename_eq:
  "caption_filename video =
     (let stem = replace_ext [] (last (split_on (CHR ''/'') (src video)))
      in if stem = [] then ''video'' else stem)"
  by (simp add: caption_filename_def pop_def split_on_nonempty js_or_def)

lemma str_includes_here3: "str_includes (a @ b @ c @ r) (a @ b @ c)"
  unfolding str_includes_def sublist_def by (metis append.assoc append_Nil)

lemma str_includes_trans:
  "str_includes s t \<Longrightarrow> str_includes t u \<Longrightarrow> str_includes s u"
  unfolding str_includes_def by (meson sublist_order.order.trans)

lemma caption_template_track_line:
  "str_includes (caption_template video f) (''    src=\"/captions/'' @ f @ ''.vtt\"\<newline>'')"
  unfolding caption_template_def
  by (intro str_includes_here3 str_includes_later)

lemma caption_template_track_src:
  "str_includes (caption_template video f) (''src=\"/captions/'' @ f @ ''.vtt\"'')"
proof -
  have "''    src=\"/captions/'' @ f @ ''.vtt\"\<newline>'' =
        ''    '' @ (''src=\"/captions/'' @ f @ ''.vtt\"'') @ ''\<newline>''"
    by simp
  then have "str_includes (''    src=\"/captions/'' @ f @ ''.vtt\"\<newline>'')
               (''src=\"/captions/'' @ f @ ''.vtt\"'')"
    unfolding str_includes_def sublist_def by blast
  then show ?thesis
    using caption_template_track_line str_includes_trans by blast
qed


lemma replace_ext_empty_iff:
  "replace_ext [] s = [] \<longleftrightarrow>
     s = [] \<or> (\<exists>ext. s = ''.'' @ ext \<and> ext \<noteq> [] \<and> CHR ''.'' \<notin> set ext)"
  by (cases s) auto

lemma split_on_last_decomp:
  "\<exists>dir. s = dir @ last (split_on c s) \<and> (dir = [] \<or> last dir = c) \<and>
         c \<notin> set (last (split_on c s))"
proof (induction s)
  case Nil
  show ?case by simp
next
  case (Cons x s)
  then obtain dir where d: "s = dir @ last (split_on c s)" "dir = [] \<or> last dir = c"
      "c \<notin> set (last (split_on c s))"
    by blast
  obtain q qs where q: "split_on c s = q # qs"
    using split_on_nonempty [of c s] by (cases "split_on c s") auto
  show ?case
  proof (cases "x = c")
    case True
    have "x # s = (x # dir) @ last (split_on c (x # s))"
      using True d(1) split_on_nonempty [of c s] by simp
    moreover have "last (x # dir) = c"
      using True d(2) by auto
    moreover have "c \<notin> set (last (split_on c (x # s)))"
      using True d(3) split_on_nonempty [of c s] by simp
    ultimately show ?thesis by blast
  next
    case False
    show ?thesis
    proof (cases "qs = []")
      case True
      then have l: "last (split_on c (x # s)) = x # q" "last (split_on c s) = q"
        using False q by simp_all
      then have "c \<notin> set q" using d(3) by simp
      moreover have "s = q"
      proof -
        have "c \<notin> set s"
        proof
          assume "c \<in> set s"
          then obtain a b where "s = a @ c # b" by (meson split_list)
          then have "length (split_on c s) \<ge> 2"
            using split_on_append [of c a b] split_on_nonempty [of c a] split_on_nonempty [of c b]
            by (cases "split_on c a"; cases "split_on c b") auto
          then show False using q True by simp
        qed
        then show ?thesis using q True by (simp add: split_on_no_separator)
      qed
      ultimately have "x # s = [] @ last (split_on c (x # s)) \<and> c \<notin> set (last (split_on c (x # s)))"
        using l False by simp
      then show ?thesis by blast
    next
      case ne: False
      then have l: "last (split_on c (x # s)) = last (split_on c s)"
        using False q by simp
      have "dir \<noteq> []"
      proof
        assume "dir = []"
        then have "s = last (split_on c s)" using d(1) by simp
        then have "c \<notin> set s" using d(3) by simp
        then have "split_on c s = [s]" by (rule split_on_no_separator)
        then show False using q ne by simp
      qed
      then have "x # s = (x # dir) @ last (split_on c (x # s)) \<and> last (x # dir) = c \<and>
                 c \<notin> set (last (split_on c (x # s)))"
        using d l by simp
      then show ?thesis by blast
    qed
  qed
qed

lemma last_split_on_empty_iff:
  "last (split_on c s) = [] \<longleftrightarrow> s = [] \<or> last s = c"
proof -
  obtain dir where d: "s = dir @ last (split_on c s)" "dir = [] \<or> last dir = c"
      "c \<notin> set (last (split_on c s))"
    using split_on_last_decomp [of s c] by blast
  show ?thesis
  proof (cases "last (split_on c s) = []")
    case True
    then show ?thesis using d(1,2) by auto
  next
    case False
    then have "last s = last (last (split_on c s))" "s \<noteq> []"
      using d(1) by (metis last_appendR, metis append_is_Nil_conv)
    then show ?thesis
      using False d(3) by (metis last_in_set)
  qed
qed

text \<open>
  C7, as stated, fails: the source URL is never parsed, so a source that is not a valid
  URL gets no fallback. For \<open>http://[::1\<close> the stem is \<open>[::1\<close>, not \<open>video\<close>.
\<close>

theorem caption_filename_unparsable:
  "caption_filename \<lparr>type_video = ''IFRAME'', src = ''http://[::1'', hasTrack = False,
                      trackKinds = []\<rparr> = ''[::1''"
  by code_simp

text \<open>
  C7, amended. The file name stem of a caption fix is the part of the source URL after
  its last \<open>/\<close> with a final extension removed: a source \<open>dir/name.ext\<close> gives the stem
  \<open>name\<close> and the caption track \<open>src="/captions/name.vtt"\<close>. Nothing is left of the source
  exactly when it is empty, ends in \<open>/\<close>, or has a last piece that is only an extension;
  then, and otherwise only when the stem itself reads \<open>video\<close>, the stem is \<open>video\<close>. The
  returned text always has the caption track \<open>src="/captions/stem.vtt"\<close>.
\<close>

theorem generateCaptionFix_filename:
  "((dir = [] \<or> last dir = CHR ''/'') \<and> name \<noteq> [] \<and> CHR ''/'' \<notin> set name \<and>
    ext \<noteq> [] \<and> CHR ''.'' \<notin> set ext \<and> CHR ''/'' \<notin> set ext \<and>
    src video = dir @ name @ ''.'' @ ext
    \<longrightarrow> caption_filename video = name \<and>
        str_includes (generateCaptionFix video) (''src=\"/captions/'' @ name @ ''.vtt\"'')) \<and>
   (replace_ext [] (last (split_on (CHR ''/'') (src video))) = [] \<longleftrightarrow>
      src video = [] \<or> last (src video) = CHR ''/'' \<or>
      (\<exists>d e. src video = d @ ''.'' @ e \<and> (d = [] \<or> last d = CHR ''/'') \<and>
             e \<noteq> [] \<and> CHR ''.'' \<notin> set e \<and> CHR ''/'' \<notin> set e)) \<and>
   caption_filename video =
     (let stem = replace_ext [] (last (split_on (CHR ''/'') (src video)))
      in if stem = [] then ''video'' else stem) \<and>
   str_includes (generateCaptionFix video)
     (''src=\"/captions/'' @ caption_filename video @ ''.vtt\"'')"
proof (intro conjI impI)
  assume a: "(dir = [] \<or> last dir = CHR ''/'') \<and> name \<noteq> [] \<and> CHR ''/'' \<notin> set name \<and>
    ext \<noteq> [] \<and> CHR ''.'' \<notin> set ext \<and> CHR ''/'' \<notin> set ext \<and>
    src video = dir @ name @ ''.'' @ ext"
  then have "CHR ''/'' \<notin> set (name @ ''.'' @ ext)"
    by simp
  then have "last (split_on (CHR ''/'') (dir @ (name @ ''.'' @ ext))) = name @ ''.'' @ ext"
    using a last_split_on [of dir "CHR ''/''" "name @ ''.'' @ ext"] by blast
  then have "replace_ext [] (last (split_on (CHR ''/'') (src video))) = name"
    using a replace_ext_extension [of ext "[]" name] by simp
  then show f: "caption_filename video = name"
    using a by (simp add: caption_filename_eq)
  show "str_includes (generateCaptionFix video) (''src=\"/captions/'' @ name @ ''.vtt\"'')"
    using caption_template_track_src [of video name] f by (simp add: generateCaptionFix_def)
next
  let ?L = "last (split_on (CHR ''/'') (src video))"
  show "replace_ext [] ?L = [] \<longleftrightarrow>
      src video = [] \<or> last (src video) = CHR ''/'' \<or>
      (\<exists>d e. src video = d @ ''.'' @ e \<and> (d = [] \<or> last d = CHR ''/'') \<and>
             e \<noteq> [] \<and> CHR ''.'' \<notin> set e \<and> CHR ''/'' \<notin> set e)"
  proof
    assume "replace_ext [] ?L = []"
    then consider "?L = []" | e where "?L = ''.'' @ e" "e \<noteq> []" "CHR ''.'' \<notin> set e"
      using replace_ext_empty_iff [of ?L] by blast
    then show "src video = [] \<or> last (src video) = CHR ''/'' \<or>
      (\<exists>d e. src video = d @ ''.'' @ e \<and> (d = [] \<or> last d = CHR ''/'') \<and>
             e \<noteq> [] \<and> CHR ''.'' \<notin> set e \<and> CHR ''/'' \<notin> set e)"
    proof cases
      case 1
      then show ?thesis
        using last_split_on_empty_iff [of "CHR ''/''" "src video"] by blast
    next
      case 2
      obtain d where d: "src video = d @ ?L" "d = [] \<or> last d = CHR ''/''"
          "CHR ''/'' \<notin> set ?L"
        using split_on_last_decomp [of "src video" "CHR ''/''"] by blast
      have "src video = d @ ''.'' @ e \<and> (d = [] \<or> last d = CHR ''/'') \<and>
            e \<noteq> [] \<and> CHR ''.'' \<notin> set e \<and> CHR ''/'' \<notin> set e"
        using d 2 by auto
      then show ?thesis by blast
    qed
  next
    assume "src video = [] \<or> last (src video) = CHR ''/'' \<or>
      (\<exists>d e. src video = d @ ''.'' @ e \<and> (d = [] \<or> last d = CHR ''/'') \<and>
             e \<noteq> [] \<and> CHR ''.'' \<notin> set e \<and> CHR ''/'' \<notin> set e)"
    then consider "src video = [] \<or> last (src video) = CHR ''/''"
      | d e where "src video = d @ ''.'' @ e" "d = [] \<or> last d = CHR ''/''"
          "e \<noteq> []" "CHR ''.'' \<notin> set e" "CHR ''/'' \<notin> set e"
      by blast
    then show "replace_ext [] ?L = []"
    proof cases
      case 1
      then have "?L = []"
        using last_split_on_empty_iff [of "CHR ''/''" "src video"] by blast
      then show ?thesis by simp
    next
      case 2
      have "CHR ''/'' \<notin> set (''.'' @ e)"
        using 2(5) by simp
      then have "?L = ''.'' @ e"
        using last_split_on [of d "CHR ''/''" "''.'' @ e"] 2(1,2) by simp
      then show ?thesis
        using replace_ext_extension [of e "[]" "[]"] 2(3,4) by simp
    qed
  qed
next
  show "caption_filename video =
     (let stem = replace_ext [] (last (split_on (CHR ''/'') (src video)))
      in if stem = [] then ''video'' else stem)"
    by (rule caption_filename_eq)
next
  show "str_includes (generateCaptionFix video)
     (''src=\"/captions/'' @ caption_filename video @ ''.vtt\"'')"
    using caption_template_track_src [of video "caption_filename video"]
    by (simp add: generateCaptionFix_def)
qed

theorem generateCaptionFix_filename_witness:
  "caption_filename intro_video = ''intro'' \<and>
   str_includes (generateCaptionFix intro_video) ''src=\"/captions/intro.vtt\"'' \<and>
   caption_filename (intro_video\<lparr>src := []\<rparr>) = ''video'' \<and>
   caption_filename (intro_video\<lparr>src := ''/media/.mp4''\<rparr>) = ''video''"
proof -
  have s: "(''/media/'' = [] \<or> last ''/media/'' = CHR ''/'') \<and> ''intro'' \<noteq> [] \<and>
           CHR ''/'' \<notin> set ''intro'' \<and> ''mp4'' \<noteq> [] \<and> CHR ''.'' \<notin> set ''mp4'' \<and>
           CHR ''/'' \<notin> set ''mp4'' \<and> src intro_video = ''/media/'' @ ''intro'' @ ''.'' @ ''mp4''"
    by (simp add: intro_video_def)
  have 1: "caption_filename intro_video = ''intro'' \<and>
           str_includes (generateCaptionFix intro_video) ''src=\"/captions/intro.vtt\"''"
    using generateCaptionFix_filename [of "''/media/''" "''intro''" "''mp4''" intro_video] s
    by simp
  have e: "src (intro_video\<lparr>src := []\<rparr>) = []"
    by simp
  have "replace_ext [] (last (split_on (CHR ''/'') (src (intro_video\<lparr>src := []\<rparr>)))) = []"
    using generateCaptionFix_filename [of "[]" "[]" "[]" "intro_video\<lparr>src := []\<rparr>"] e
    by blast
  then have 2: "caption_filename (intro_video\<lparr>src := []\<rparr>) = ''video''"
    using generateCaptionFix_filename [of "[]" "[]" "[]" "intro_video\<lparr>src := []\<rparr>"]
    by (simp add: Let_def)
  let ?v = "intro_video\<lparr>src := ''/media/.mp4''\<rparr>"
  have x: "\<exists>d e. src ?v = d @ ''.'' @ e \<and> (d = [] \<or> last d = CHR ''/'') \<and>
             e \<noteq> [] \<and> CHR ''.'' \<notin> set e \<and> CHR ''/'' \<notin> set e"
    by (rule exI [of _ "''/media/''"], rule exI [of _ "''mp4''"]) simp
  have "replace_ext [] (last (split_on (CHR ''/'') (src ?v))) = []"
    using generateCaptionFix_filename [of "[]" "[]" "[]" ?v] x by blast
  then have 3: "caption_filename ?v = ''video''"
    using generateCaptionFix_filename [of "[]" "[]" "[]" ?v] by (simp add: Let_def)
  show ?thesis
    using 1 2 3 by blast
qed


text \<open>
  A \<open>VideoInfo\<close> built by the scanner's page script has a track exactly when the element
  is a \<open>video\<close> with a \<open>track\<close> child.
\<close>

lemma detectVideos_hasTrack:
  "hasTrack (videoInfo_of e) \<longleftrightarrow> el_tagName e = ''VIDEO'' \<and> el_tracks e \<noteq> []"
  by (simp add: videoInfo_of_def)

text \<open>
  An element without a source, as the scanner's page script reports it, has the empty
  string as its \<open>src\<close>, and its caption fix uses the stem \<open>video\<close>.
\<close>

lemma caption_filename_absent_source:
  assumes "el_src e = []" and "el_currentSrc e = None"
  shows "src (videoInfo_of e) = [] \<and> caption_filename (videoInfo_of e) = ''video''"
  using assms by (simp add: videoInfo_of_def js_or_def caption_filename_eq)

text \<open>
  C6. A video that has a track is never among \<open>missingCaptions\<close>, and it adds nothing to
  the templates written out: the output is the same with or without it, one template
  per video that lacks a track.
\<close>

theorem detectVideos_agent_skips_captioned:
  "hasTrack v \<Longrightarrow>
     v \<notin> set (fst (snd (detectVideos_agent videos))) \<and>
     snd (snd (detectVideos_agent (xs @ v # ys))) = snd (snd (detectVideos_agent (xs @ ys))) \<and>
     length (snd (snd (detectVideos_agent videos))) =
       length (filter (\<lambda>w. \<not> hasTrack w) videos)"
  by (simp add: detectVideos_agent_def missingCaptions_def)

theorem detectVideos_agent_skips_captioned_witness:
  "hasTrack (intro_video\<lparr>hasTrack := True\<rparr>) \<and>
   snd (snd (detectVideos_agent [intro_video\<lparr>hasTrack := True\<rparr>])) = [] \<and>
   snd (snd (detectVideos_agent [intro_video\<lparr>hasTrack := True\<rparr>, intro_video])) =
     snd (snd (detectVideos_agent [intro_video]))"
  using detectVideos_agent_skips_captioned [of "intro_video\<lparr>hasTrack := True\<rparr>" "[]" "[]" "[]"]
    detectVideos_agent_skips_captioned [of "intro_video\<lparr>hasTrack := True\<rparr>" "[]" "[]" "[intro_video]"]
  by (simp add: detectVideos_agent_def missingCaptions_def)


section \<open>Properties of the focus walker\<close>

lemma nth_opt_snoc_last: "nth_opt (xs @ [x]) (length xs) = Some x"
  by (simp add: nth_opt_def)

lemma nth_opt_snoc_prev: "i < length xs \<Longrightarrow> nth_opt (xs @ [x]) i = Some (xs ! i)"
  by (simp add: nth_opt_def nth_append)

lemma map_upt_snoc: "map e [0..<i] @ [e i] = map e [0..<Suc i]"
  by simp

text \<open>
  One iteration that observes an element, when every earlier step did so too: then
  \<open>tabOrder[i]\<close> is the element just appended and \<open>tabOrder[i - 1]\<close> the one before it.
\<close>

lemma keyboard_loop_step_on:
  assumes "i < 30" and "observe i = Some (e i)" and "tabOrder r = map e [0..<i]"
    and "\<not> (0 < i \<and> id_element (e i) = id_element (e (i - 1)) \<and> id_element (e i) \<noteq> [])"
  shows "\<exists>r'. keyboard_loop observe i r = keyboard_loop observe (Suc i) r' \<and>
              tabOrder r' = map e [0..<Suc i] \<and> focusTraps r' = focusTraps r"
proof -
  have l: "nth_opt (map e [0..<i] @ [e i]) i = Some (e i)"
    using nth_opt_snoc_last [of "map e [0..<i]" "e i"] by simp
  have p: "0 < i \<Longrightarrow> nth_opt (map e [0..<i] @ [e i]) (i - 1) = Some (e (i - 1))"
    using nth_opt_snoc_prev [of "i - 1" "map e [0..<i]" "e i"] by simp
  let ?r1 = "r\<lparr>tabOrder := tabOrder r @ [e i]\<rparr>"
  let ?r2 = "if \<not> hasFocusIndicator (e i)
             then ?r1\<lparr>missingFocusIndicators := missingFocusIndicators ?r1 @ [e i]\<rparr>
             else ?r1"
  have t2: "tabOrder ?r2 = map e [0..<i] @ [e i]" and f2: "focusTraps ?r2 = focusTraps r"
    using assms(3) by simp_all
  have c: "\<not> (i > 0 \<and>
              map_option id_element (nth_opt (tabOrder ?r2) i) =
                map_option id_element (nth_opt (tabOrder ?r2) (i - 1)) \<and>
              map_option id_element (nth_opt (tabOrder ?r2) i) \<noteq> Some [])"
  proof (cases "0 < i")
    case True
    then show ?thesis
      unfolding t2 using assms(4) l p by simp
  next
    case False
    then show ?thesis by simp
  qed
  have "keyboard_loop observe i r = keyboard_loop observe (i + 1) ?r2"
    by (subst keyboard_loop.simps)
       (simp only: assms(1,2) if_not_P [OF c] Let_def if_True option.case)
  then show ?thesis
    using t2 f2 by (intro exI [of _ ?r2]) simp
qed

lemma keyboard_loop_step_trap:
  assumes "i < 30" and "observe i = Some (e i)" and "tabOrder r = map e [0..<i]"
    and "0 < i" and "id_element (e i) = id_element (e (i - 1))" and "id_element (e i) \<noteq> []"
  shows "tabOrder (keyboard_loop observe i r) = map e [0..<Suc i] \<and>
         focusTraps (keyboard_loop observe i r) = focusTraps r @ [e i]"
proof -
  have l: "nth_opt (map e [0..<i] @ [e i]) i = Some (e i)"
    using nth_opt_snoc_last [of "map e [0..<i]" "e i"] by simp
  have p: "nth_opt (map e [0..<i] @ [e i]) (i - 1) = Some (e (i - 1))"
    using nth_opt_snoc_prev [of "i - 1" "map e [0..<i]" "e i"] assms(4) by simp
  let ?r1 = "r\<lparr>tabOrder := tabOrder r @ [e i]\<rparr>"
  let ?r2 = "if \<not> hasFocusIndicator (e i)
             then ?r1\<lparr>missingFocusIndicators := missingFocusIndicators ?r1 @ [e i]\<rparr>
             else ?r1"
  have t2: "tabOrder ?r2 = map e [0..<i] @ [e i]" and f2: "focusTraps ?r2 = focusTraps r"
    using assms(3) by simp_all
  have c: "i > 0 \<and>
           map_option id_element (nth_opt (tabOrder ?r2) i) =
             map_option id_element (nth_opt (tabOrder ?r2) (i - 1)) \<and>
           map_option id_element (nth_opt (tabOrder ?r2) i) \<noteq> Some []"
    unfolding t2 using assms(4,5,6) l p by simp
  have "keyboard_loop observe i r = ?r2\<lparr>focusTraps := focusTraps ?r2 @ [e i]\<rparr>"
    by (subst keyboard_loop.simps)
       (simp only: assms(1,2) if_P [OF c] Let_def if_True option.case)
  then show ?thesis
    using t2 f2 by simp
qed

lemma keyboard_loop_trap:
  assumes obs: "\<And>j. j \<le> k \<Longrightarrow> observe j = Some (e j)"
    and k: "0 < k" "k < 30"
    and free: "\<And>j. 0 < j \<Longrightarrow> j < k \<Longrightarrow>
                 id_element (e j) \<noteq> id_element (e (j - 1)) \<or> id_element (e j) = []"
    and rep: "id_element (e k) = id_element (e (k - 1))" "id_element (e k) \<noteq> []"
  shows "i \<le> k \<Longrightarrow> tabOrder r = map e [0..<i] \<Longrightarrow>
         tabOrder (keyboard_loop observe i r) = map e [0..<Suc k] \<and>
         focusTraps (keyboard_loop observe i r) = focusTraps r @ [e k]"
proof (induction "k - i" arbitrary: i r)
  case 0
  then have ik: "i = k" by simp
  show ?case
    using keyboard_loop_step_trap [of k observe e r] obs [of k] "0.prems"(2) k rep ik
    by simp
next
  case (Suc n)
  then have ik: "i < k" by simp
  then have i: "i < 30" using k by simp
  have o: "observe i = Some (e i)"
    using obs [of i] ik by simp
  have nt: "\<not> (0 < i \<and> id_element (e i) = id_element (e (i - 1)) \<and> id_element (e i) \<noteq> [])"
    using free [of i] ik by blast
  obtain r' where r': "keyboard_loop observe i r = keyboard_loop observe (Suc i) r'"
      "tabOrder r' = map e [0..<Suc i]" "focusTraps r' = focusTraps r"
    using keyboard_loop_step_on [of i observe e r, OF i o Suc.prems(2) nt] by blast
  have "tabOrder (keyboard_loop observe (Suc i) r') = map e [0..<Suc k] \<and>
        focusTraps (keyboard_loop observe (Suc i) r') = focusTraps r' @ [e k]"
    using Suc.hyps(2) ik r'(2) by (intro Suc.hyps(1)) auto
  then show ?case
    using r' by simp
qed

text \<open>
  When every step up to step \<open>k\<close> observes an element and step \<open>k\<close> is the first to repeat
  the non-empty id of the step before it, the walk halts there: \<open>tabOrder\<close> holds the
  elements of steps 0 to \<open>k\<close>, and \<open>focusTraps\<close> holds the element of step \<open>k\<close> alone.
\<close>

lemma runKeyboardTest_trap:
  assumes "\<And>j. j \<le> k \<Longrightarrow> observe j = Some (e j)"
    and "0 < k" "k < 30"
    and "\<And>j. 0 < j \<Longrightarrow> j < k \<Longrightarrow>
           id_element (e j) \<noteq> id_element (e (j - 1)) \<or> id_element (e j) = []"
    and "id_element (e k) = id_element (e (k - 1))" "id_element (e k) \<noteq> []"
  shows "tabOrder (runKeyboardTest observe) = map e [0..<Suc k] \<and>
         focusTraps (runKeyboardTest observe) = [e k]"
  unfolding runKeyboardTest_def
  using keyboard_loop_trap [of k observe e 0
      "\<lparr>tabOrder = [], focusTraps = [], missingFocusIndicators = []\<rparr>", OF assms]
  by simp

lemma runKeyboardTest_example:
  "runKeyboardTest (observations [Some (el ''a''), Some (el ''b''), Some (el ''b''), Some (el ''c'')]) =
     \<lparr>tabOrder = [el ''a'', el ''b'', el ''b''], focusTraps = [el ''b''],
      missingFocusIndicators = []\<rparr>"
  by code_simp

text \<open>
  After two steps without a focused element, \<open>tabOrder[i]\<close> and \<open>tabOrder[i - 1]\<close> are both
  \<open>undefined\<close>, the check compares \<open>undefined\<close> with \<open>undefined\<close>, and the first element
  observed is reported as a trap.
\<close>

lemma runKeyboardTest_false_trap:
  "runKeyboardTest (observations [None, None, Some (el ''x''), Some (el ''y'')]) =
     \<lparr>tabOrder = [el ''x''], focusTraps = [el ''x''], missingFocusIndicators = []\<rparr>"
  by code_simp

text \<open>
  C8. A walk in which a non-empty id repeats at two consecutive steps should halt at the
  second of them with one entry in \<open>focusTraps\<close>. In the walk below the first step
  observes no element and the next two observe the element \<open>b\<close>. The check reads
  \<open>tabOrder\<close> at the loop counter, which is now one past the last entry, so the repeat is
  not seen: the walk does not halt and \<open>focusTraps\<close> stays empty.
\<close>

theorem runKeyboardTest_missed_trap:
  "runKeyboardTest (observations [None, Some (el ''b''), Some (el ''b'')]) =
     \<lparr>tabOrder = [el ''b'', el ''b''], focusTraps = [], missingFocusIndicators = []\<rparr>"
  by code_simp

text \<open>
  C9, as stated, fails: in the walk below no two consecutive elements share an id and
  all thirty steps are made, yet \<open>tabOrder\<close> has two entries, since a step that observes
  no element appends nothing.
\<close>

theorem runKeyboardTest_skips_null:
  "length (tabOrder (runKeyboardTest (observations [Some (el ''a''), None, Some (el ''b'')]))) = 2 \<and>
   focusTraps (runKeyboardTest (observations [Some (el ''a''), None, Some (el ''b'')])) = []"
  by code_simp

lemma missed_steps_Suc:
  "missed_steps observe (Suc i) = missed_steps observe i + (if observe i = None then 1 else 0)"
  by (simp add: missed_steps_def)

lemma map_filter_snoc:
  "List.map_filter f (xs @ [y]) =
     List.map_filter f xs @ (case f y of None \<Rightarrow> [] | Some e \<Rightarrow> [e])"
  by (simp add: List.map_filter_def split: option.splits)

lemma length_map_filter_upt:
  "length (List.map_filter observe [0..<i]) + missed_steps observe i = i"
proof (induction i)
  case 0
  show ?case by (simp add: missed_steps_def List.map_filter_def)
next
  case (Suc i)
  then show ?case
    by (cases "observe i") (simp_all add: missed_steps_Suc map_filter_snoc)
qed

lemma missed_steps_0:
  assumes "missed_steps observe i = 0" and "j < i"
  shows "observe j \<noteq> None"
proof
  assume "observe j = None"
  moreover have "\<forall>j\<in>set [0..<i]. observe j \<noteq> None"
    using assms(1) by (simp add: missed_steps_def filter_empty_conv)
  ultimately show False
    using assms(2) by simp
qed

lemma map_filter_upt_nth:
  assumes "missed_steps observe i = 0" and "j < i"
  shows "List.map_filter observe [0..<i] ! j = the (observe j)"
proof -
  have "filter (\<lambda>x. observe x \<noteq> None) [0..<i] = [0..<i]"
    using missed_steps_0 [OF assms(1)] by (intro filter_True) simp
  then show ?thesis
    using assms(2) by (simp add: List.map_filter_def)
qed

text \<open>
  An iteration that observes an element and passes the trap check: either no earlier
  step was skipped and the element does not repeat the non-empty id of the entry before
  it, or exactly one earlier step was skipped, and then \<open>tabOrder[i]\<close> is \<open>undefined\<close> while
  \<open>tabOrder[i - 1]\<close> is the element itself.
\<close>

lemma keyboard_loop_step_pass:
  assumes "i < 30" and "observe i = Some x"
    and "(length (tabOrder r) = i \<and>
          (0 < i \<longrightarrow> id_element x \<noteq> id_element (tabOrder r ! (i - 1)) \<or> id_element x = []))
         \<or> Suc (length (tabOrder r)) = i"
  shows "\<exists>r'. keyboard_loop observe i r = keyboard_loop observe (Suc i) r' \<and>
              tabOrder r' = tabOrder r @ [x] \<and> focusTraps r' = focusTraps r"
proof -
  let ?r1 = "r\<lparr>tabOrder := tabOrder r @ [x]\<rparr>"
  let ?r2 = "if \<not> hasFocusIndicator x
             then ?r1\<lparr>missingFocusIndicators := missingFocusIndicators ?r1 @ [x]\<rparr>
             else ?r1"
  have t2: "tabOrder ?r2 = tabOrder r @ [x]" and f2: "focusTraps ?r2 = focusTraps r"
    by simp_all
  have c: "\<not> (i > 0 \<and>
              map_option id_element (nth_opt (tabOrder ?r2) i) =
                map_option id_element (nth_opt (tabOrder ?r2) (i - 1)) \<and>
              map_option id_element (nth_opt (tabOrder ?r2) i) \<noteq> Some [])"
  proof (cases "length (tabOrder r) = i")
    case True
    then have l: "nth_opt (tabOrder r @ [x]) i = Some x"
      using nth_opt_snoc_last [of "tabOrder r" x] by simp
    have p: "0 < i \<Longrightarrow> nth_opt (tabOrder r @ [x]) (i - 1) = Some (tabOrder r ! (i - 1))"
      using True by (simp add: nth_opt_def nth_append)
    show ?thesis
    proof (cases "0 < i")
      case False
      then show ?thesis by simp
    next
      case pos: True
      then show ?thesis
        unfolding t2 using assms(3) True l p by auto
    qed
  next
    case False
    then have s: "Suc (length (tabOrder r)) = i"
      using assms(3) by blast
    then have "nth_opt (tabOrder r @ [x]) i = None"
      and "nth_opt (tabOrder r @ [x]) (i - 1) = Some x"
      by (auto simp: nth_opt_def)
    then show ?thesis
      unfolding t2 by simp
  qed
  have "keyboard_loop observe i r = keyboard_loop observe (i + 1) ?r2"
    by (subst keyboard_loop.simps)
       (simp only: assms(1,2) if_not_P [OF c] Let_def if_True option.case)
  then show ?thesis
    using t2 f2 by (intro exI [of _ ?r2]) simp
qed

lemma keyboard_loop_step_skip:
  assumes "i < 30" and "observe i = None"
  shows "keyboard_loop observe i r = keyboard_loop observe (Suc i) r"
  by (subst keyboard_loop.simps) (simp add: assms)

lemma keyboard_loop_walk:
  assumes rep: "\<And>i a b. 0 < i \<Longrightarrow> i < 30 \<Longrightarrow> observe (i - 1) = Some a \<Longrightarrow> observe i = Some b \<Longrightarrow>
                  id_element b \<noteq> id_element a \<or> id_element b = []"
    and two: "\<And>i. i < 30 \<Longrightarrow> observe i \<noteq> None \<Longrightarrow> missed_steps observe i \<le> 1"
  shows "i \<le> 30 \<Longrightarrow> tabOrder r = List.map_filter observe [0..<i] \<Longrightarrow>
         tabOrder (keyboard_loop observe i r) = List.map_filter observe [0..<30] \<and>
         focusTraps (keyboard_loop observe i r) = focusTraps r"
proof (induction "30 - i" arbitrary: i r)
  case 0
  then have "i = 30" by simp
  then show ?case
    using "0.prems" by (subst keyboard_loop.simps, subst keyboard_loop.simps) simp
next
  case (Suc n)
  then have i: "i < 30" by simp
  have n: "n = 30 - Suc i" "Suc i \<le> 30"
    using Suc.hyps(2) by simp_all
  show ?case
  proof (cases "observe i")
    case None
    have "tabOrder r = List.map_filter observe [0..<Suc i]"
      using Suc.prems(2) None by (simp add: map_filter_snoc)
    then show ?thesis
      using Suc.hyps(1) [OF n] keyboard_loop_step_skip [of i observe r] i None by simp
  next
    case (Some x)
    have m: "missed_steps observe i \<le> 1"
      using two [OF i] Some by simp
    have len: "length (tabOrder r) + missed_steps observe i = i"
      using length_map_filter_upt [of observe i] Suc.prems(2) by simp
    have pass: "(length (tabOrder r) = i \<and>
          (0 < i \<longrightarrow> id_element x \<noteq> id_element (tabOrder r ! (i - 1)) \<or> id_element x = []))
         \<or> Suc (length (tabOrder r)) = i"
    proof (cases "missed_steps observe i = 0")
      case True
      then have l: "length (tabOrder r) = i"
        using len by simp
      have "id_element x \<noteq> id_element (tabOrder r ! (i - 1)) \<or> id_element x = []" if "0 < i"
      proof -
        have "observe (i - 1) \<noteq> None"
          using missed_steps_0 [OF True, of "i - 1"] that by simp
        then obtain a where a: "observe (i - 1) = Some a" by auto
        have "tabOrder r ! (i - 1) = a"
          using map_filter_upt_nth [OF True, of "i - 1"] that a Suc.prems(2) by simp
        then show ?thesis
          using rep [OF that i a Some] by simp
      qed
      then show ?thesis using l by blast
    next
      case False
      then have "missed_steps observe i = 1"
        using m by simp
      then show ?thesis using len by simp
    qed
    obtain r' where r': "keyboard_loop observe i r = keyboard_loop observe (Suc i) r'"
        "tabOrder r' = tabOrder r @ [x]" "focusTraps r' = focusTraps r"
      using keyboard_loop_step_pass [of i observe x r] i Some pass by blast
    have "tabOrder r' = List.map_filter observe [0..<Suc i]"
      using r'(2) Suc.prems(2) Some by (simp add: map_filter_snoc)
    then show ?thesis
      using Suc.hyps(1) [OF n] r' by simp
  qed
qed

text \<open>
  C9, amended. Take a walk in which no two consecutive steps observe elements that share
  a non-empty id, and in which no element is observed once two or more steps have found
  no focused element. The walk makes all thirty steps: \<open>tabOrder\<close> holds the observed
  elements in step order, a step without a focused element adding nothing, so that its
  length is thirty less the number of such steps, and thirty when every step observes an
  element; \<open>focusTraps\<close> is empty.
\<close>

theorem runKeyboardTest_exhausts_budget:
  assumes "\<forall>i a b. 0 < i \<and> i < 30 \<and> observe (i - 1) = Some a \<and> observe i = Some b
             \<longrightarrow> id_element b \<noteq> id_element a \<or> id_element b = []"
    and "\<forall>i<30. observe i \<noteq> None \<longrightarrow> missed_steps observe i \<le> 1"
  shows "tabOrder (runKeyboardTest observe) = List.map_filter observe [0..<30] \<and>
         length (tabOrder (runKeyboardTest observe)) = 30 - missed_steps observe 30 \<and>
         ((\<forall>i<30. observe i \<noteq> None) \<longrightarrow> length (tabOrder (runKeyboardTest observe)) = 30) \<and>
         focusTraps (runKeyboardTest observe) = []"
proof -
  have w: "tabOrder (runKeyboardTest observe) = List.map_filter observe [0..<30] \<and>
           focusTraps (runKeyboardTest observe) = []"
    unfolding runKeyboardTest_def
    using keyboard_loop_walk [of observe 0
        "\<lparr>tabOrder = [], focusTraps = [], missingFocusIndicators = []\<rparr>"] assms
    by (simp add: List.map_filter_def)
  have l: "length (tabOrder (runKeyboardTest observe)) = 30 - missed_steps observe 30"
    using w length_map_filter_upt [of observe 30] by simp
  have "missed_steps observe 30 = 0" if "\<forall>i<30. observe i \<noteq> None"
    using that by (simp add: missed_steps_def filter_empty_conv)
  then show ?thesis
    using w l by simp
qed

lemma missed_steps_one_null_walk:
  "missed_steps one_null_walk i = (if 1 < i then 1 else 0)"
  by (induction i) (auto simp: missed_steps_Suc one_null_walk_def missed_steps_def)

theorem runKeyboardTest_exhausts_budget_witness:
  "length (tabOrder (runKeyboardTest one_null_walk)) = 29 \<and>
   tabOrder (runKeyboardTest one_null_walk) = List.map_filter one_null_walk [0..<30] \<and>
   focusTraps (runKeyboardTest one_null_walk) = []"
proof -
  have r: "\<forall>i a b. 0 < i \<and> i < 30 \<and> one_null_walk (i - 1) = Some a \<and> one_null_walk i = Some b
             \<longrightarrow> id_element b \<noteq> id_element a \<or> id_element b = []"
  proof (intro allI impI)
    fix i :: nat and a b
    assume h: "0 < i \<and> i < 30 \<and> one_null_walk (i - 1) = Some a \<and> one_null_walk i = Some b"
    then have "length (id_element a) = i" "length (id_element b) = Suc i"
      by (auto simp: one_null_walk_def el_def split: if_splits)
    then have "id_element b \<noteq> id_element a"
      by (metis n_not_Suc_n)
    then show "id_element b \<noteq> id_element a \<or> id_element b = []"
      by simp
  qed
  have t: "\<forall>i<30. one_null_walk i \<noteq> None \<longrightarrow> missed_steps one_null_walk i \<le> 1"
    by (simp add: missed_steps_one_null_walk)
  have m: "missed_steps one_null_walk 30 = 1"
    by (simp add: missed_steps_one_null_walk)
  have "tabOrder (runKeyboardTest one_null_walk) = List.map_filter one_null_walk [0..<30]"
    and "length (tabOrder (runKeyboardTest one_null_walk)) = 30 - missed_steps one_null_walk 30"
    and "focusTraps (runKeyboardTest one_null_walk) = []"
    using runKeyboardTest_exhausts_budget [OF r t] by blast+
  then show ?thesis
    unfolding m by simp
qed


section \<open>Properties of the focus indicator fix\<close>

lemma split_on_first: "nth_opt (split_on c s) 0 = Some (takeWhile (\<lambda>x. x \<noteq> c) s)"
proof (induction s)
  case Nil
  show ?case by (simp add: nth_opt_def)
next
  case (Cons x s)
  then show ?case
    by (cases "split_on c s") (auto simp: nth_opt_def)
qed

lemma str_includes_here4: "str_includes (a @ b @ c @ d @ r) (a @ b @ c @ d)"
  unfolding str_includes_def sublist_def by (metis append.assoc append_Nil)

lemma focus_template_rules:
  "str_includes (focus_template s) (s @ '':focus,\<newline>'' @ s @ '':focus-visible {\<newline>'')"
  "str_includes (focus_template s) (''  '' @ s @ '':focus {\<newline>'')"
  unfolding focus_template_def
  by (intro str_includes_here4 str_includes_here3 str_includes_later)+

lemma first_whitespace_token_spaces:
  assumes "s \<noteq> []" and "\<not> is_whitespace (hd s)"
    and "\<forall>c\<in>set s. is_whitespace c \<longrightarrow> c = CHR '' ''"
  shows "first_whitespace_token s = takeWhile (\<lambda>c. c \<noteq> CHR '' '') s"
proof -
  have "dropWhile is_whitespace s = s"
    using assms(1,2) by (cases s) auto
  moreover have "takeWhile (\<lambda>c. \<not> is_whitespace c) s = takeWhile (\<lambda>c. c \<noteq> CHR '' '') s"
    using assms(3) by (intro takeWhile_cong) (auto simp: is_whitespace_def)
  ultimately show ?thesis
    by (simp add: first_whitespace_token_def)
qed

text \<open>
  C10. For a non-empty \<open>className\<close> the selector should be a dot followed by the first
  whitespace-separated token. For the class name \<open>" btn"\<close>, whose first token is \<open>btn\<close>, the
  source splits at the leading space, takes the empty first piece and returns a lone
  dot, which is not a selector.
\<close>

theorem focus_selector_leading_space:
  "focus_selector \<lparr>tagName = ''BUTTON'', id_element = [], className = '' btn'',
                    text_element = [], hasFocusIndicator = False\<rparr> = ''.'' \<and>
   ''.'' @ first_whitespace_token '' btn'' = ''.btn''"
  by code_simp

text \<open>
  What the source does in general: for a non-empty \<open>className\<close> the selector is a dot
  followed by the part of \<open>className\<close> before its first space character, which is the
  first whitespace-separated token when \<open>className\<close> does not start with whitespace and
  contains no whitespace other than spaces; for an empty \<open>className\<close> it is the tag name
  in lower case. The returned CSS has \<open>:focus\<close> rules for the selector.
\<close>

lemma focus_selector_cases:
  "(className element \<noteq> []
    \<longrightarrow> focus_selector element = ''.'' @ takeWhile (\<lambda>c. c \<noteq> CHR '' '') (className element)) \<and>
   (className element \<noteq> [] \<and> \<not> is_whitespace (hd (className element)) \<and>
    (\<forall>c\<in>set (className element). is_whitespace c \<longrightarrow> c = CHR '' '')
    \<longrightarrow> focus_selector element = ''.'' @ first_whitespace_token (className element)) \<and>
   (className element = [] \<longrightarrow> focus_selector element = toLowerCase (tagName element)) \<and>
   str_includes (generateFocusIndicatorFix element)
     (focus_selector element @ '':focus,\<newline>'' @ focus_selector element @ '':focus-visible {\<newline>'') \<and>
   str_includes (generateFocusIndicatorFix element)
     (''  '' @ focus_selector element @ '':focus {\<newline>'')"
proof -
  have a: "className element \<noteq> []
    \<longrightarrow> focus_selector element = ''.'' @ takeWhile (\<lambda>c. c \<noteq> CHR '' '') (className element)"
    by (simp add: focus_selector_def split_on_first interpolate_def)
  have b: "className element \<noteq> [] \<and> \<not> is_whitespace (hd (className element)) \<and>
    (\<forall>c\<in>set (className element). is_whitespace c \<longrightarrow> c = CHR '' '')
    \<longrightarrow> focus_selector element = ''.'' @ first_whitespace_token (className element)"
    using a first_whitespace_token_spaces [of "className element"] by simp
  have c: "className element = [] \<longrightarrow> focus_selector element = toLowerCase (tagName element)"
    by (simp add: focus_selector_def)
  show ?thesis
    using a b c focus_template_rules [of "focus_selector element"]
    by (simp add: generateFocusIndicatorFix_def)
qed

lemma toLowerCase_examples:
  "toLowerCase ''BUTTON'' = ''button''"
  "toLowerCase [CHR 0xC9] = [CHR 0xE9]"
  "toLowerCase [CHR 0xD7] = [CHR 0xD7]"
  by code_simp+

end
